theory Spec2Isabelle
  imports Main
begin

section \<open>JavaScript values, errors and the worker's environment\<close>

text \<open>
  The worker handles JSON payloads whose TypeScript types are erased at run time, so a
  payload is modelled as the JavaScript value that \<^verbatim>\<open>response.json()\<close> yields.
  \<open>JUndefined\<close> never occurs inside parsed JSON; it is the value of a missing property.
  Numbers are restricted to integers: the code only observes whether a number is zero.
\<close>

datatype jsval =
    JUndefined
  | JNull
  | JBool bool
  | JNum int
  | JStr string
  | JArr "jsval list"
  | JObj "(string \<times> jsval) list"

text \<open>The condition of \<^verbatim>\<open>if (v)\<close>, \<^verbatim>\<open>!v\<close> and \<^verbatim>\<open>Boolean(v)\<close>.\<close>

fun truthy :: "jsval \<Rightarrow> bool" where
  "truthy JUndefined = False"
| "truthy JNull = False"
| "truthy (JBool b) = b"
| "truthy (JNum n) = (n \<noteq> 0)"
| "truthy (JStr s) = (s \<noteq> [])"
| "truthy (JArr _) = True"
| "truthy (JObj _) = True"

text \<open>
  Errors are values. \<open>ApiError\<close> is the class of \<^verbatim>\<open>middleware/errorHandler.ts\<close> with its
  HTTP status and message; the other constructors are the built-in error classes with
  their message.
\<close>

datatype error =
    ApiError nat string
  | Error string
  | TypeError string
  | SyntaxError string
  | AbortError string

fun error_message :: "error \<Rightarrow> string" where
  "error_message (ApiError _ m) = m"
| "error_message (Error m) = m"
| "error_message (TypeError m) = m"
| "error_message (SyntaxError m) = m"
| "error_message (AbortError m) = m"

text \<open>
  Property access \<^verbatim>\<open>v.k\<close> for the keys the worker reads (\<open>success\<close>, \<open>result\<close>):
  it throws on \<^verbatim>\<open>null\<close> and \<^verbatim>\<open>undefined\<close>, yields \<^verbatim>\<open>undefined\<close> on a primitive, an
  array or an object without the key, and the last binding of a duplicated key.
\<close>

fun js_get :: "jsval \<Rightarrow> string \<Rightarrow> error + jsval" where
  "js_get JUndefined k = Inl (TypeError ''Cannot read properties of undefined'')"
| "js_get JNull k = Inl (TypeError ''Cannot read properties of null'')"
| "js_get (JObj kvs) k = Inr (case map_of (rev kvs) k of None \<Rightarrow> JUndefined | Some v \<Rightarrow> v)"
| "js_get (JBool _) k = Inr JUndefined"
| "js_get (JNum _) k = Inr JUndefined"
| "js_get (JStr _) k = Inr JUndefined"
| "js_get (JArr _) k = Inr JUndefined"

text \<open>The bindings of \<^verbatim>\<open>Env\<close> that the service and the routes read; each may be unset.\<close>

record Env =
  IPINFO_TOKEN :: "string option"
  CLOUDFLARE_ACCOUNT_ID :: "string option"
  CLOUDFLARE_RADAR_TOKEN :: "string option"
  CACHE_BACKEND :: "string option"

text \<open>\<^verbatim>\<open>!env.X\<close> holds for an unset binding and for the empty string.\<close>

definition present :: "string option \<Rightarrow> bool" where
  "present v = (case v of None \<Rightarrow> False | Some s \<Rightarrow> s \<noteq> [])"

text \<open>A binding inside a template literal.\<close>

definition str_of :: "string option \<Rightarrow> string" where
  "str_of v = (case v of None \<Rightarrow> ''undefined'' | Some s \<Rightarrow> s)"

text \<open>Decimal rendering of a status code inside a template literal.\<close>

definition digit_char :: "nat \<Rightarrow> char" where
  "digit_char d = ''0123456789'' ! (d mod 10)"

function show_nat :: "nat \<Rightarrow> string" where
  "show_nat n = (if n < 10 then [digit_char n] else show_nat (n div 10) @ [digit_char n])"
  by pat_completeness auto
termination
  by (relation "measure id") auto

declare show_nat.simps [simp del]


section \<open>The network\<close>

record request =
  url :: string
  headers :: "(string \<times> string) list"

text \<open>
  A response carries its status and its body as parsed JSON (\<open>None\<close> when the body is not
  JSON, so that \<^verbatim>\<open>response.json()\<close> rejects). \<^verbatim>\<open>response.ok\<close> is a status in 200..299.
\<close>

record response =
  status :: nat
  body :: "jsval option"

definition ok :: "response \<Rightarrow> bool" where
  "ok r = (200 \<le> status r \<and> status r \<le> 299)"

definition response_json :: "response \<Rightarrow> error + jsval" where
  "response_json r =
     (case body r of None \<Rightarrow> Inl (SyntaxError ''Unexpected token'') | Some j \<Rightarrow> Inr j)"

datatype fetch_outcome = Rejects error | Responds response

datatype level = Debug | Info | Warn | Err

text \<open>
  Modelled from the spec: \<^verbatim>\<open>types/ip.ts\<close> (\<^verbatim>\<open>NormalizedIpInsight\<close>) is missing. The fields
  are those of the spec's data model, which are also the ones the routes read from a
  lookup result.
\<close>

record NormalizedIpInsight =
  ip :: string
  country :: "string option"
  region :: "string option"
  city :: "string option"
  timezone :: "string option"
  org :: "string option"
  loc :: "string option"

text \<open>
  Modelled from the spec: the entry type of the missing cache store, the data with the
  time at which it was stored.
\<close>

record CacheEntry =
  data :: NormalizedIpInsight
  storedAt :: int

text \<open>
  What the service does not own: the network (the outcome of a request may depend on the
  requests made before it), the platform's \<^verbatim>\<open>encodeURIComponent\<close>, and the two
  normalisers of \<^verbatim>\<open>services/ipNormalization.ts\<close>, which is missing; they are parameters,
  and either normaliser may throw.
\<close>

record world =
  net :: "request list \<Rightarrow> request \<Rightarrow> fetch_outcome"
  encodeURIComponent :: "string \<Rightarrow> string"
  normalizeIpInfo :: "jsval \<Rightarrow> error + NormalizedIpInsight"
  normalizeRadar :: "jsval \<Rightarrow> error + NormalizedIpInsight"

text \<open>
  A revalidation that was started and not awaited. \<^verbatim>\<open>revalidateIpInsight(ip)\<close> runs up to
  its first \<^verbatim>\<open>await\<close>, which waits for \<^verbatim>\<open>fetchIpInfoWorker(ip)\<close>: the task holds the
  address and what that promise settles with.
\<close>

record revalidation =
  rv_ip :: string
  rv_ipinfo :: "error + jsval"

text \<open>
  The state of one isolate: clock, cache store with its two durations and the record of
  its \<^verbatim>\<open>set\<close> calls, the deduplicator's tickets (key, address and waiting callers) with
  the record of factory invocations, the promises already settled for callers, the
  requests sent, the log, and the revalidations started and not yet resumed.
\<close>

record state =
  now :: int
  ttlMs :: int
  staleTtlMs :: int
  cache :: "string \<rightharpoonup> CacheEntry"
  cache_sets :: "(string \<times> NormalizedIpInsight) list"
  pending :: "string \<rightharpoonup> string \<times> nat list"
  invocations :: "string list"
  resolved :: "nat \<rightharpoonup> error + NormalizedIpInsight"
  netlog :: "request list"
  logs :: "(level \<times> string) list"
  background :: "revalidation list"

text \<open>
  A call of the logger (\<^verbatim>\<open>utils/logger.ts\<close>, missing) is recorded with its level and
  message.
\<close>

definition log :: "level \<Rightarrow> string \<Rightarrow> state \<Rightarrow> state" where
  "log l m st = st\<lparr>logs := logs st @ [(l, m)]\<rparr>"


section \<open>Provider clients (services/ipService.worker.ts)\<close>

definition CF_BASE :: string where
  "CF_BASE = ''https://api.cloudflare.com/client/v4''"

text \<open>
  \<^verbatim>\<open>fetchWithTimeout\<close>: the request is sent and recorded; the abort after
  \<^verbatim>\<open>clientTimeout\<close> is one of the ways in which the network rejects.
\<close>

definition fetchWithTimeout ::
  "world \<Rightarrow> string \<Rightarrow> (string \<times> string) list \<Rightarrow> state \<Rightarrow> (error + response) \<times> state" where
  "fetchWithTimeout W u hs st =
     (let req = \<lparr>url = u, headers = hs\<rparr>
      in (case net W (netlog st) req of Rejects e \<Rightarrow> Inl e | Responds r \<Rightarrow> Inr r,
          st\<lparr>netlog := netlog st @ [req]\<rparr>))"

definition ipinfo_url :: "world \<Rightarrow> Env \<Rightarrow> string \<Rightarrow> string" where
  "ipinfo_url W env a =
     ''https://ipinfo.io/'' @ encodeURIComponent W a @ ''/json?token='' @ str_of (IPINFO_TOKEN env)"

definition fetchIpInfoWorker ::
  "world \<Rightarrow> Env \<Rightarrow> string \<Rightarrow> state \<Rightarrow> (error + jsval) \<times> state" where
  "fetchIpInfoWorker W env a st =
     (if \<not> present (IPINFO_TOKEN env) then (Inr JNull, st)
      else
        (case fetchWithTimeout W (ipinfo_url W env a) [(''Accept'', ''application/json'')] st of
           (Inl e, st') \<Rightarrow> (Inl e, st')
         | (Inr r, st') \<Rightarrow>
             if \<not> ok r
             then (Inl (Error (''ipinfo request failed: '' @ show_nat (status r))), st')
             else (response_json r, st')))"

definition radar_url :: "world \<Rightarrow> Env \<Rightarrow> string \<Rightarrow> string" where
  "radar_url W env a =
     CF_BASE @ ''/accounts/'' @ str_of (CLOUDFLARE_ACCOUNT_ID env) @ ''/intelligence/ip?ip=''
       @ encodeURIComponent W a"

definition radar_headers :: "Env \<Rightarrow> (string \<times> string) list" where
  "radar_headers env =
     [(''Authorization'', ''Bearer '' @ str_of (CLOUDFLARE_RADAR_TOKEN env)),
      (''Content-Type'', ''application/json'')]"

definition fetchRadarWorker ::
  "world \<Rightarrow> Env \<Rightarrow> string \<Rightarrow> state \<Rightarrow> (error + jsval) \<times> state" where
  "fetchRadarWorker W env a st =
     (if \<not> present (CLOUDFLARE_ACCOUNT_ID env) \<or> \<not> present (CLOUDFLARE_RADAR_TOKEN env)
      then (Inr JNull, st)
      else
        (case fetchWithTimeout W (radar_url W env a) (radar_headers env) st of
           (Inl e, st') \<Rightarrow> (Inl e, st')
         | (Inr r, st') \<Rightarrow>
             if \<not> ok r
             then (Inl (Error (''Cloudflare Radar request failed: '' @ show_nat (status r))), st')
             else
               (case response_json r of
                  Inl e \<Rightarrow> (Inl e, st')
                | Inr payload \<Rightarrow>
                    (case js_get payload ''success'' of
                       Inl e \<Rightarrow> (Inl e, st')
                     | Inr s \<Rightarrow>
                         if \<not> truthy s then (Inl (Error ''Radar lookup unsuccessful''), st')
                         else (js_get payload ''result'', st')))))"

text \<open>\<^verbatim>\<open>verifyRadarToken\<close>: the body of its \<^verbatim>\<open>try\<close> block, then the function with its \<^verbatim>\<open>catch\<close>.\<close>

definition verify_url :: "Env \<Rightarrow> string" where
  "verify_url env = CF_BASE @ ''/accounts/'' @ str_of (CLOUDFLARE_ACCOUNT_ID env) @ ''/tokens/verify''"

definition verify_try :: "world \<Rightarrow> Env \<Rightarrow> state \<Rightarrow> (error + bool) \<times> state" where
  "verify_try W env st =
     (case fetchWithTimeout W (verify_url env) (radar_headers env) st of
        (Inl e, st') \<Rightarrow> (Inl e, st')
      | (Inr r, st') \<Rightarrow>
          if \<not> ok r then (Inr False, st')
          else
            (case response_json r of
               Inl e \<Rightarrow> (Inl e, st')
             | Inr payload \<Rightarrow>
                 (case js_get payload ''success'' of
                    Inl e \<Rightarrow> (Inl e, st')
                  | Inr s \<Rightarrow> (Inr (truthy s), st'))))"

definition verifyRadarToken :: "world \<Rightarrow> Env \<Rightarrow> state \<Rightarrow> (error + bool) \<times> state" where
  "verifyRadarToken W env st =
     (if \<not> present (CLOUDFLARE_ACCOUNT_ID env) \<or> \<not> present (CLOUDFLARE_RADAR_TOKEN env)
      then (Inr False, st)
      else
        (case verify_try W env st of
           (Inl e, st') \<Rightarrow> (Inr False, log Warn ''Radar token verification failed'' st')
         | (Inr b, st') \<Rightarrow> (Inr b, st')))"


text \<open>The three requests the service sends, as \<open>fetchWithTimeout\<close> records them.\<close>

definition ipinfo_request :: "world \<Rightarrow> Env \<Rightarrow> string \<Rightarrow> request" where
  "ipinfo_request W env a =
     \<lparr>url = ipinfo_url W env a, headers = [(''Accept'', ''application/json'')]\<rparr>"

definition radar_request :: "world \<Rightarrow> Env \<Rightarrow> string \<Rightarrow> request" where
  "radar_request W env a = \<lparr>url = radar_url W env a, headers = radar_headers env\<rparr>"

definition verify_request :: "Env \<Rightarrow> request" where
  "verify_request env = \<lparr>url = verify_url env, headers = radar_headers env\<rparr>"

text \<open>The requests one attempt at each provider sends: none without credentials.\<close>

definition primary_requests :: "world \<Rightarrow> Env \<Rightarrow> string \<Rightarrow> request list" where
  "primary_requests W env a =
     (if present (IPINFO_TOKEN env) then [ipinfo_request W env a] else [])"

definition secondary_requests :: "world \<Rightarrow> Env \<Rightarrow> string \<Rightarrow> request list" where
  "secondary_requests W env a =
     (if present (CLOUDFLARE_ACCOUNT_ID env) \<and> present (CLOUDFLARE_RADAR_TOKEN env)
      then [radar_request W env a] else [])"


section \<open>Cache store and request deduplicator\<close>

text \<open>
  Modelled from the spec: \<^verbatim>\<open>utils/cacheFactory.worker.ts\<close> (\<^verbatim>\<open>createCache\<close>) is missing.
  An entry whose age is at most \<open>ttlMs\<close> is fresh, one whose age is above \<open>ttlMs\<close> and at
  most \<open>staleTtlMs\<close> is stale, and beyond \<open>staleTtlMs\<close> the read is a miss.
\<close>

definition getWithStale :: "state \<Rightarrow> string \<Rightarrow> CacheEntry option \<times> bool" where
  "getWithStale st k =
     (case cache st k of
        None \<Rightarrow> (None, False)
      | Some e \<Rightarrow>
          (let age = now st - storedAt e
           in if age \<le> ttlMs st then (Some e, False)
              else if age \<le> staleTtlMs st then (Some e, True)
              else (None, False)))"

text \<open>
  Modelled from the spec: \<^verbatim>\<open>set\<close> of the missing cache store replaces the whole entry,
  stamped with the current time; the call is recorded.
\<close>

definition cache_set :: "string \<Rightarrow> NormalizedIpInsight \<Rightarrow> state \<Rightarrow> state" where
  "cache_set k v st =
     st\<lparr>cache := (cache st)(k \<mapsto> \<lparr>data = v, storedAt = now st\<rparr>),
        cache_sets := cache_sets st @ [(k, v)]\<rparr>"

text \<open>
  Modelled from the spec: \<^verbatim>\<open>utils/requestDeduplication.ts\<close> (\<^verbatim>\<open>requestDeduplicator\<close>) is
  missing. The first caller for a key invokes the factory and registers the pending
  resolution under the key; a caller that finds the key pending joins its waiters and
  invokes nothing. The only factory ever passed is the one of \<open>lookupIpInsight\<close>, so a
  ticket stores the address the factory was built for.
\<close>

definition deduplicate :: "string \<Rightarrow> string \<Rightarrow> nat \<Rightarrow> state \<Rightarrow> state" where
  "deduplicate key a c st =
     (case pending st key of
        Some (a', waiters) \<Rightarrow> st\<lparr>pending := (pending st)(key \<mapsto> (a', waiters @ [c]))\<rparr>
      | None \<Rightarrow>
          st\<lparr>pending := (pending st)(key \<mapsto> (a, [c])),
             invocations := invocations st @ [key]\<rparr>)"


section \<open>IP insight service (services/ipService.worker.ts)\<close>

text \<open>
  One provider attempt is the body of a \<^verbatim>\<open>try\<close> block and its \<^verbatim>\<open>catch\<close>, which logs a
  warning and leaves the insight \<^verbatim>\<open>null\<close>. The lookup and the revalidation run the same
  two attempts; they differ in the messages logged.
\<close>

definition ipinfo_try ::
  "world \<Rightarrow> Env \<Rightarrow> string \<Rightarrow> state \<Rightarrow> (error + NormalizedIpInsight option) \<times> state" where
  "ipinfo_try W env a st =
     (case fetchIpInfoWorker W env a st of
        (Inl e, st') \<Rightarrow> (Inl e, st')
      | (Inr ipinfo, st') \<Rightarrow>
          if truthy ipinfo
          then (case normalizeIpInfo W ipinfo of
                  Inl e \<Rightarrow> (Inl e, st')
                | Inr i \<Rightarrow> (Inr (Some i), st'))
          else (Inr None, st'))"

definition ipinfo_attempt ::
  "world \<Rightarrow> Env \<Rightarrow> string \<Rightarrow> string \<Rightarrow> state \<Rightarrow> NormalizedIpInsight option \<times> state" where
  "ipinfo_attempt W env msg a st =
     (case ipinfo_try W env a st of
        (Inl e, st') \<Rightarrow> (None, log Warn msg st')
      | (Inr i, st') \<Rightarrow> (i, st'))"

definition radar_try ::
  "world \<Rightarrow> Env \<Rightarrow> string \<Rightarrow> state \<Rightarrow> (error + NormalizedIpInsight option) \<times> state" where
  "radar_try W env a st =
     (case fetchRadarWorker W env a st of
        (Inl e, st') \<Rightarrow> (Inl e, st')
      | (Inr radar, st') \<Rightarrow>
          if truthy radar
          then (case normalizeRadar W radar of
                  Inl e \<Rightarrow> (Inl e, st')
                | Inr i \<Rightarrow> (Inr (Some i), st'))
          else (Inr None, st'))"

definition radar_attempt ::
  "world \<Rightarrow> Env \<Rightarrow> string \<Rightarrow> string \<Rightarrow> state \<Rightarrow> NormalizedIpInsight option \<times> state" where
  "radar_attempt W env msg a st =
     (case radar_try W env a st of
        (Inl e, st') \<Rightarrow> (None, log Warn msg st')
      | (Inr i, st') \<Rightarrow> (i, st'))"

text \<open>The primary attempt, then the secondary attempt only if the insight is still \<^verbatim>\<open>null\<close>.\<close>

definition attempt_providers ::
  "world \<Rightarrow> Env \<Rightarrow> string \<Rightarrow> string \<Rightarrow> string \<Rightarrow> state \<Rightarrow> NormalizedIpInsight option \<times> state" where
  "attempt_providers W env msg1 msg2 a st =
     (case ipinfo_attempt W env msg1 a st of
        (Some i, st1) \<Rightarrow> (Some i, st1)
      | (None, st1) \<Rightarrow> radar_attempt W env msg2 a st1)"

text \<open>\<^verbatim>\<open>revalidateIpInsight\<close>: the body of the outer \<^verbatim>\<open>try\<close>, then the function with its \<^verbatim>\<open>catch\<close>.\<close>

definition revalidate_try :: "world \<Rightarrow> Env \<Rightarrow> string \<Rightarrow> state \<Rightarrow> (error + unit) \<times> state" where
  "revalidate_try W env a st =
     (case attempt_providers W env ''ipinfo revalidation failed''
             ''Cloudflare Radar revalidation failed'' a st of
        (None, st') \<Rightarrow> (Inr (), st')
      | (Some insight, st') \<Rightarrow>
          (Inr (), log Debug ''Background revalidation completed'' (cache_set a insight st')))"

definition revalidateIpInsight :: "world \<Rightarrow> Env \<Rightarrow> string \<Rightarrow> state \<Rightarrow> (error + unit) \<times> state" where
  "revalidateIpInsight W env a st =
     (case revalidate_try W env a st of
        (Inl e, st') \<Rightarrow> (Inr (), log Warn ''Background revalidation error'' st')
      | (Inr u, st') \<Rightarrow> (Inr (), st'))"

text \<open>The factory that \<open>lookupIpInsight\<close> hands to the deduplicator.\<close>

definition lookupFactory ::
  "world \<Rightarrow> Env \<Rightarrow> string \<Rightarrow> state \<Rightarrow> (error + NormalizedIpInsight) \<times> state" where
  "lookupFactory W env a st =
     (case getWithStale st a of
        (Some cachedAfterLock, _) \<Rightarrow> (Inr (data cachedAfterLock), st)
      | (None, _) \<Rightarrow>
          (case attempt_providers W env ''ipinfo lookup failed''
                  ''Cloudflare Radar lookup failed'' a st of
             (None, st') \<Rightarrow> (Inl (ApiError 502 ''Unable to fetch IP intelligence''), st')
           | (Some insight, st') \<Rightarrow> (Inr insight, cache_set a insight st')))"

text \<open>
  \<open>revalidateIpInsight\<close> when it is called and not awaited, as the stale branch of
  \<open>lookupIpInsight\<close> calls it. The call runs synchronously up to the first \<^verbatim>\<open>await\<close>:
  \<open>fetchIpInfoWorker\<close> has been called, so the primary's request, if there is a token,
  is sent inside the call; the revalidation then waits for that promise.
\<close>

definition revalidate_start :: "world \<Rightarrow> Env \<Rightarrow> string \<Rightarrow> state \<Rightarrow> state" where
  "revalidate_start W env a st =
     (case fetchIpInfoWorker W env a st of
        (p, st') \<Rightarrow> st'\<lparr>background := background st' @ [\<lparr>rv_ip = a, rv_ipinfo = p\<rparr>]\<rparr>)"

text \<open>
  The rest of the primary attempt once the promise of \<open>fetchIpInfoWorker\<close> has settled
  with \<open>p\<close>: the remainder of the \<^verbatim>\<open>try\<close> block and its \<^verbatim>\<open>catch\<close>.
\<close>

definition ipinfo_settled ::
  "world \<Rightarrow> string \<Rightarrow> error + jsval \<Rightarrow> state \<Rightarrow> NormalizedIpInsight option \<times> state" where
  "ipinfo_settled W msg p st =
     (case p of
        Inl e \<Rightarrow> (None, log Warn msg st)
      | Inr ipinfo \<Rightarrow>
          if truthy ipinfo
          then (case normalizeIpInfo W ipinfo of
                  Inl e \<Rightarrow> (None, log Warn msg st)
                | Inr i \<Rightarrow> (Some i, st))
          else (None, st))"

text \<open>
  The rest of \<open>revalidateIpInsight\<close> after its first \<^verbatim>\<open>await\<close>: the body of the outer
  \<^verbatim>\<open>try\<close> from there on, then the outer \<^verbatim>\<open>catch\<close>.
\<close>

definition revalidate_resume_try ::
  "world \<Rightarrow> Env \<Rightarrow> revalidation \<Rightarrow> state \<Rightarrow> (error + unit) \<times> state" where
  "revalidate_resume_try W env t st =
     (case (case ipinfo_settled W ''ipinfo revalidation failed'' (rv_ipinfo t) st of
              (Some i, st1) \<Rightarrow> (Some i, st1)
            | (None, st1) \<Rightarrow>
                radar_attempt W env ''Cloudflare Radar revalidation failed'' (rv_ip t) st1) of
        (None, st') \<Rightarrow> (Inr (), st')
      | (Some insight, st') \<Rightarrow>
          (Inr (), log Debug ''Background revalidation completed''
                     (cache_set (rv_ip t) insight st')))"

definition revalidate_resume ::
  "world \<Rightarrow> Env \<Rightarrow> revalidation \<Rightarrow> state \<Rightarrow> (error + unit) \<times> state" where
  "revalidate_resume W env t st =
     (case revalidate_resume_try W env t st of
        (Inl e, st') \<Rightarrow> (Inr (), log Warn ''Background revalidation error'' st')
      | (Inr u, st') \<Rightarrow> (Inr (), st'))"

text \<open>
  \<open>lookupIpInsight\<close> for the caller whose promise is \<open>c\<close>, up to the point where it
  either has its result or waits in the deduplicator. The stale branch logs, calls
  \<open>revalidateIpInsight\<close> without awaiting it, and returns the cached data: the
  revalidation is started inside the call and resumes later (\<open>run_background\<close>).
\<close>

definition lookupIpInsight :: "world \<Rightarrow> Env \<Rightarrow> nat \<Rightarrow> string \<Rightarrow> state \<Rightarrow> state" where
  "lookupIpInsight W env c a st =
     (case getWithStale st a of
        (Some cached, isStale) \<Rightarrow>
          (let st' = (if isStale
                      then revalidate_start W env a
                             (log Debug ''Serving stale data, revalidating in background'' st)
                      else st)
           in st'\<lparr>resolved := (resolved st')(c \<mapsto> Inr (data cached))\<rparr>)
      | (None, _) \<Rightarrow>
          deduplicate (''ip:'' @ a) a c (st\<lparr>resolved := (resolved st)(c := None)\<rparr>))"

text \<open>
  Modelled from the spec: settlement of the missing deduplicator. The pending resolution
  of a key completes: the factory's outcome, success or failure, goes to every waiter and
  the key leaves the pending set. The factory's run is taken at the moment it settles.
\<close>

definition settle :: "world \<Rightarrow> Env \<Rightarrow> string \<Rightarrow> state \<Rightarrow> state" where
  "settle W env key st =
     (case pending st key of
        None \<Rightarrow> st
      | Some (a, waiters) \<Rightarrow>
          (case lookupFactory W env a st of
             (r, st') \<Rightarrow>
               st'\<lparr>pending := (pending st')(key := None),
                   resolved := (\<lambda>c. if c \<in> set waiters then Some r else resolved st' c)\<rparr>))"

text \<open>
  The oldest started revalidation resumes and runs to its end; the \<^verbatim>\<open>.catch\<close> that
  \<open>lookupIpInsight\<close> attached to it logs a rejection.
\<close>

definition run_background :: "world \<Rightarrow> Env \<Rightarrow> state \<Rightarrow> state" where
  "run_background W env st =
     (case background st of
        [] \<Rightarrow> st
      | t # rest \<Rightarrow>
          (case revalidate_resume W env t (st\<lparr>background := rest\<rparr>) of
             (Inl e, st') \<Rightarrow> log Warn ''Background revalidation failed'' st'
           | (Inr u, st') \<Rightarrow> st'))"

text \<open>
  \<^verbatim>\<open>await services.lookupIpInsight(ip)\<close> with no other lookup interleaved: the call, then
  the settlement of its own ticket if it waits for one. \<open>None\<close> would be a promise that
  never settles.
\<close>

definition await_lookupIpInsight ::
  "world \<Rightarrow> Env \<Rightarrow> nat \<Rightarrow> string \<Rightarrow> state \<Rightarrow> (error + NormalizedIpInsight) option \<times> state" where
  "await_lookupIpInsight W env c a st =
     (let st1 = lookupIpInsight W env c a st
      in case resolved st1 c of
           Some r \<Rightarrow> (Some r, st1)
         | None \<Rightarrow> (let st2 = settle W env (''ip:'' @ a) st1 in (resolved st2 c, st2)))"

text \<open>Interleavings of callers on the isolate's single thread.\<close>

datatype event = Lookup nat string | Settle string | Background

fun step :: "world \<Rightarrow> Env \<Rightarrow> event \<Rightarrow> state \<Rightarrow> state" where
  "step W env (Lookup c a) st = lookupIpInsight W env c a st"
| "step W env (Settle key) st = settle W env key st"
| "step W env Background st = run_background W env st"

definition run :: "world \<Rightarrow> Env \<Rightarrow> event list \<Rightarrow> state \<Rightarrow> state" where
  "run W env evs st = foldl (\<lambda>s e. step W env e s) st evs"

text \<open>
  The callers \<open>cs\<close> all look the same address up before the resolution they share
  settles.
\<close>

definition concurrent_lookups :: "world \<Rightarrow> Env \<Rightarrow> nat list \<Rightarrow> string \<Rightarrow> state \<Rightarrow> state" where
  "concurrent_lookups W env cs a st =
     run W env (map (\<lambda>c. Lookup c a) cs @ [Settle (''ip:'' @ a)]) st"


section \<open>Routes of the worker and their Express siblings\<close>

record http_response =
  res_status :: nat
  res_body :: jsval

text \<open>\<^verbatim>\<open>c.json(obj, status)\<close>; the status is 200 when the handler gives none.\<close>

definition json_response :: "jsval \<Rightarrow> nat \<Rightarrow> http_response" where
  "json_response obj code = \<lparr>res_status = code, res_body = obj\<rparr>"

text \<open>An insight as JSON: a property that is \<^verbatim>\<open>undefined\<close> is left out.\<close>

definition opt_field :: "string \<Rightarrow> string option \<Rightarrow> (string \<times> jsval) list" where
  "opt_field k v = (case v of None \<Rightarrow> [] | Some s \<Rightarrow> [(k, JStr s)])"

definition insight_json :: "NormalizedIpInsight \<Rightarrow> jsval" where
  "insight_json i =
     JObj ([(''ip'', JStr (ip i))] @ opt_field ''country'' (country i)
           @ opt_field ''region'' (region i) @ opt_field ''city'' (city i)
           @ opt_field ''timezone'' (timezone i) @ opt_field ''org'' (org i)
           @ opt_field ''loc'' (loc i))"

text \<open>
  The test \<^verbatim>\<open>/^(\d{1,3}\.){3}\d{1,3}$/.test(ip)\<close>: each matcher returns the remainders
  of the input after the ways in which its pattern can match a prefix.
\<close>

definition is_digit :: "char \<Rightarrow> bool" where
  "is_digit ch = (ch \<in> set ''0123456789'')"

definition match_digits :: "string \<Rightarrow> string list" where
  "match_digits s = [drop k s. k \<leftarrow> [1, 2, 3], k \<le> length s, list_all is_digit (take k s)]"

definition match_dot :: "string \<Rightarrow> string list" where
  "match_dot s = (case s of [] \<Rightarrow> [] | ch # r \<Rightarrow> if ch = CHR ''.'' then [r] else [])"

definition match_group :: "string \<Rightarrow> string list" where
  "match_group s = concat (map match_dot (match_digits s))"

definition ip_pattern :: "string \<Rightarrow> bool" where
  "ip_pattern s =
     ([] \<in> set (concat (map match_digits
               (concat (map match_group (concat (map match_group (match_group s))))))))"

text \<open>
  The handler of \<^verbatim>\<open>GET /api/v1/ip/:ip\<close> for the request whose lookup promise is \<open>c\<close>;
  the path parameter may be missing. No response would be a handler that never returns.
\<close>

definition invalid_ip_response :: http_response where
  "invalid_ip_response = json_response (JObj [(''error'', JStr ''Invalid IP address'')]) 400"

definition internal_error_response :: "error \<Rightarrow> http_response" where
  "internal_error_response e =
     json_response (JObj [(''error'', JStr ''Internal Server Error''),
                          (''message'', JStr (error_message e))]) 500"

definition get_v1_ip ::
  "world \<Rightarrow> Env \<Rightarrow> nat \<Rightarrow> string option \<Rightarrow> state \<Rightarrow> http_response option \<times> state" where
  "get_v1_ip W env c param st =
     (case param of
        None \<Rightarrow> (Some invalid_ip_response, st)
      | Some a \<Rightarrow>
          if a = [] \<or> \<not> ip_pattern a then (Some invalid_ip_response, st)
          else
            (case await_lookupIpInsight W env c a st of
               (None, st') \<Rightarrow> (None, st')
             | (Some (Inr result), st') \<Rightarrow> (Some (json_response (insight_json result) 200), st')
             | (Some (Inl e), st') \<Rightarrow>
                 (Some (internal_error_response e), log Err ''Basic IP lookup failed'' st')))"

text \<open>
  \<^verbatim>\<open>errorHandler\<close> of \<^verbatim>\<open>middleware/errorHandler.ts\<close>, the Express sibling of the handler's
  \<^verbatim>\<open>catch\<close>: the response and the level at which the error is logged. No \<open>ApiError\<close> of
  the service carries details, and an \<^verbatim>\<open>undefined\<close> property is left out of the JSON.
\<close>

definition errorHandler :: "error \<Rightarrow> http_response \<times> level" where
  "errorHandler err =
     (let code = (case err of ApiError s _ \<Rightarrow> s | _ \<Rightarrow> 500);
          payload = JObj [(''error'', JStr (error_message err))]
      in (json_response payload code, if code \<ge> 500 then Err else Warn))"

text \<open>
  The handler of \<^verbatim>\<open>GET /api/health\<close> of the worker. It has no \<^verbatim>\<open>try\<close>: a rejection of
  \<open>verifyRadarToken\<close> would reach the framework's default handler, which answers 500.
\<close>

definition get_api_health :: "world \<Rightarrow> Env \<Rightarrow> state \<Rightarrow> http_response \<times> state" where
  "get_api_health W env st =
     (case verifyRadarToken W env st of
        (Inl e, st') \<Rightarrow> (json_response (JStr ''Internal Server Error'') 500, st')
      | (Inr radarHealthy, st') \<Rightarrow>
          (json_response
             (JObj [(''status'', JStr ''ok''),
                    (''version'', JStr ''1.0.0''),
                    (''environment'', JStr ''cloudflare-workers''),
                    (''uptime'', JNum (now st')),
                    (''cache'',
                       JObj [(''backend'',
                                JStr (case CACHE_BACKEND env of None \<Rightarrow> ''kv'' | Some b \<Rightarrow> b)),
                             (''enabled'', JBool True)]),
                    (''radarHealthy'', JBool radarHealthy),
                    (''timestamp'', JNum (now st'))]) 200,
           st'))"

text \<open>
  The Express route \<^verbatim>\<open>healthRouter.get('/health')\<close>. Its collaborators are missing and are
  parameters: the configuration, the outcome of the Radar client's \<^verbatim>\<open>verifyRadarToken\<close>,
  the cache warmer's two readings, the version, the uptime and the clock.
\<close>

record Config =
  cfg_IPINFO_TOKEN :: "string option"
  cfg_CLOUDFLARE_ACCOUNT_ID :: "string option"
  cfg_CLOUDFLARE_RADAR_TOKEN :: "string option"
  cfg_CACHE_BACKEND :: string
  cfg_CACHE_WARMING_ENABLED :: bool
  cfg_NODE_ENV :: string

record health_inputs =
  hi_verifyRadarToken :: bool
  hi_isInProgress :: bool
  hi_getWarmedCount :: nat
  hi_appVersion :: string
  hi_uptime :: int
  hi_now :: int

definition healthRouter_health :: "Config \<Rightarrow> health_inputs \<Rightarrow> http_response" where
  "healthRouter_health config h =
     (let radarHealthy =
            (if present (cfg_CLOUDFLARE_ACCOUNT_ID config) \<and> present (cfg_CLOUDFLARE_RADAR_TOKEN config)
             then JBool (hi_verifyRadarToken h) else JNull)
      in json_response
           (JObj [(''status'', JStr ''ok''),
                  (''version'', JStr (hi_appVersion h)),
                  (''env'', JStr (cfg_NODE_ENV config)),
                  (''uptime'', JNum (hi_uptime h)),
                  (''ipinfoConfigured'', JBool (present (cfg_IPINFO_TOKEN config))),
                  (''radarHealthy'', radarHealthy),
                  (''cache'',
                     JObj [(''backend'', JStr (cfg_CACHE_BACKEND config)),
                           (''warmingEnabled'', JBool (cfg_CACHE_WARMING_ENABLED config)),
                           (''warmingInProgress'', JBool (hi_isInProgress h)),
                           (''warmedCount'', JNum (int (hi_getWarmedCount h)))]),
                  (''timestamp'', JNum (hi_now h))]) 200)"

text \<open>Whether a response body is an object with a given property.\<close>

definition has_field :: "jsval \<Rightarrow> string \<Rightarrow> bool" where
  "has_field v k = (case v of JObj kvs \<Rightarrow> k \<in> set (map fst kvs) | _ \<Rightarrow> False)"

definition js_field :: "jsval \<Rightarrow> string \<Rightarrow> jsval" where
  "js_field v k = (case js_get v k of Inl e \<Rightarrow> JUndefined | Inr x \<Rightarrow> x)"


section \<open>Concrete worlds and states\<close>

text \<open>
  A network that answers the primary provider's host with one outcome and any other
  request with another, normalisers that copy the payload's string properties, and an
  \<^verbatim>\<open>encodeURIComponent\<close> that is the identity, as it is on dotted quads.
\<close>

definition net_of :: "fetch_outcome \<Rightarrow> fetch_outcome \<Rightarrow> request list \<Rightarrow> request \<Rightarrow> fetch_outcome" where
  "net_of primary other hist req =
     (if take 18 (url req) = ''https://ipinfo.io/'' then primary else other)"

definition str_prop :: "jsval \<Rightarrow> string \<Rightarrow> string option" where
  "str_prop v k = (case js_get v k of Inr (JStr s) \<Rightarrow> Some s | _ \<Rightarrow> None)"

definition copy_fields :: "jsval \<Rightarrow> error + NormalizedIpInsight" where
  "copy_fields v =
     Inr \<lparr>ip = (case str_prop v ''ip'' of None \<Rightarrow> [] | Some s \<Rightarrow> s),
          country = str_prop v ''country'', region = str_prop v ''region'',
          city = str_prop v ''city'', timezone = str_prop v ''timezone'',
          org = str_prop v ''org'', loc = str_prop v ''loc''\<rparr>"

definition world_of :: "fetch_outcome \<Rightarrow> fetch_outcome \<Rightarrow> world" where
  "world_of primary other =
     \<lparr>net = net_of primary other, encodeURIComponent = (\<lambda>s. s),
      normalizeIpInfo = copy_fields, normalizeRadar = copy_fields\<rparr>"

definition env_both :: Env where
  "env_both = \<lparr>IPINFO_TOKEN = Some ''tok'', CLOUDFLARE_ACCOUNT_ID = Some ''acct'',
               CLOUDFLARE_RADAR_TOKEN = Some ''radar'', CACHE_BACKEND = None\<rparr>"

definition env_none :: Env where
  "env_none = \<lparr>IPINFO_TOKEN = None, CLOUDFLARE_ACCOUNT_ID = None,
               CLOUDFLARE_RADAR_TOKEN = None, CACHE_BACKEND = None\<rparr>"

definition env_radar_only :: Env where
  "env_radar_only = \<lparr>IPINFO_TOKEN = None, CLOUDFLARE_ACCOUNT_ID = Some ''acct'',
                     CLOUDFLARE_RADAR_TOKEN = Some ''radar'', CACHE_BACKEND = Some ''memory''\<rparr>"

definition google :: NormalizedIpInsight where
  "google = \<lparr>ip = ''8.8.8.8'', country = Some ''US'', region = None, city = None,
             timezone = None, org = Some ''Google LLC'', loc = None\<rparr>"

definition radar_ok :: fetch_outcome where
  "radar_ok =
     Responds \<lparr>status = 200,
               body = Some (JObj [(''success'', JBool True),
                                  (''result'', JObj [(''ip'', JStr ''8.8.8.8''),
                                                     (''country'', JStr ''US''),
                                                     (''org'', JStr ''Google LLC'')])])\<rparr>"

definition radar_refused :: fetch_outcome where
  "radar_refused =
     Responds \<lparr>status = 200, body = Some (JObj [(''success'', JBool False)])\<rparr>"

definition server_error :: fetch_outcome where
  "server_error = Responds \<lparr>status = 500, body = None\<rparr>"

definition timed_out :: fetch_outcome where
  "timed_out = Rejects (AbortError ''The operation was aborted'')"

definition ipinfo_ok :: fetch_outcome where
  "ipinfo_ok =
     Responds \<lparr>status = 200,
               body = Some (JObj [(''ip'', JStr ''8.8.8.8''), (''country'', JStr ''US''),
                                  (''org'', JStr ''AS15169 Google LLC'')])\<rparr>"

text \<open>An isolate that has cached nothing, and one that cached an insight at time 0.\<close>

definition cold :: "int \<Rightarrow> state" where
  "cold t =
     \<lparr>now = t, ttlMs = 300000, staleTtlMs = 1800000, cache = Map.empty, cache_sets = [],
      pending = Map.empty, invocations = [], resolved = Map.empty, netlog = [], logs = [],
      background = []\<rparr>"

definition warm :: "int \<Rightarrow> state" where
  "warm t = (cold t)\<lparr>cache := [''8.8.8.8'' \<mapsto> \<lparr>data = google, storedAt = 0\<rparr>]\<rparr>"


section \<open>The cache store's three ages\<close>

lemma getWithStale_absent: "cache st k = None \<Longrightarrow> getWithStale st k = (None, False)"
  by (simp add: getWithStale_def)

lemma getWithStale_fresh:
  "cache st k = Some e \<Longrightarrow> now st - storedAt e \<le> ttlMs st \<Longrightarrow>
   getWithStale st k = (Some e, False)"
  by (simp add: getWithStale_def)

lemma getWithStale_stale:
  "cache st k = Some e \<Longrightarrow> ttlMs st < now st - storedAt e \<Longrightarrow>
   now st - storedAt e \<le> staleTtlMs st \<Longrightarrow> getWithStale st k = (Some e, True)"
  by (simp add: getWithStale_def)

lemma getWithStale_expired:
  "cache st k = Some e \<Longrightarrow> ttlMs st < now st - storedAt e \<Longrightarrow>
   staleTtlMs st < now st - storedAt e \<Longrightarrow> getWithStale st k = (None, False)"
  by (simp add: getWithStale_def)


section \<open>Provider clients: outcomes of a fetch\<close>

lemma fetchWithTimeout_eq:
  "fetchWithTimeout W u hs st =
     (case net W (netlog st) \<lparr>url = u, headers = hs\<rparr> of Rejects e \<Rightarrow> Inl e | Responds r \<Rightarrow> Inr r,
      st\<lparr>netlog := netlog st @ [\<lparr>url = u, headers = hs\<rparr>]\<rparr>)"
  by (simp add: fetchWithTimeout_def Let_def)

lemma fetchIpInfoWorker_absent:
  "\<not> present (IPINFO_TOKEN env) \<Longrightarrow> fetchIpInfoWorker W env a st = (Inr JNull, st)"
  by (simp add: fetchIpInfoWorker_def)

lemma fetchIpInfoWorker_result:
  "present (IPINFO_TOKEN env) \<Longrightarrow>
   fst (fetchIpInfoWorker W env a st) =
     (case net W (netlog st) (ipinfo_request W env a) of
        Rejects e \<Rightarrow> Inl e
      | Responds r \<Rightarrow>
          if \<not> ok r then Inl (Error (''ipinfo request failed: '' @ show_nat (status r)))
          else response_json r)"
  by (simp add: fetchIpInfoWorker_def fetchWithTimeout_eq ipinfo_request_def
      split: fetch_outcome.splits)

lemma fetchRadarWorker_absent:
  "\<not> (present (CLOUDFLARE_ACCOUNT_ID env) \<and> present (CLOUDFLARE_RADAR_TOKEN env)) \<Longrightarrow>
   fetchRadarWorker W env a st = (Inr JNull, st)"
  by (auto simp add: fetchRadarWorker_def)

lemma fetchRadarWorker_result:
  "present (CLOUDFLARE_ACCOUNT_ID env) \<Longrightarrow> present (CLOUDFLARE_RADAR_TOKEN env) \<Longrightarrow>
   fst (fetchRadarWorker W env a st) =
     (case net W (netlog st) (radar_request W env a) of
        Rejects e \<Rightarrow> Inl e
      | Responds r \<Rightarrow>
          if \<not> ok r then Inl (Error (''Cloudflare Radar request failed: '' @ show_nat (status r)))
          else (case response_json r of
                  Inl e \<Rightarrow> Inl e
                | Inr payload \<Rightarrow>
                    (case js_get payload ''success'' of
                       Inl e \<Rightarrow> Inl e
                     | Inr s \<Rightarrow> if \<not> truthy s then Inl (Error ''Radar lookup unsuccessful'')
                                else js_get payload ''result'')))"
  by (simp add: fetchRadarWorker_def fetchWithTimeout_eq radar_request_def
      split: fetch_outcome.splits sum.splits)

lemma js_get_both: "js_get p k = Inr s \<Longrightarrow> \<exists>v. js_get p k' = Inr v"
  by (cases p) auto

lemma show_nat_500: "show_nat 500 = ''500''"
  by (simp add: show_nat.simps digit_char_def)

lemmas fixtures =
  world_of_def net_of_def env_both_def env_none_def env_radar_only_def cold_def warm_def
  server_error_def timed_out_def radar_ok_def radar_refused_def ipinfo_ok_def google_def
  copy_fields_def str_prop_def

lemmas requests =
  ipinfo_request_def ipinfo_url_def radar_request_def radar_url_def radar_headers_def
  verify_request_def verify_url_def CF_BASE_def str_of_def present_def
  primary_requests_def secondary_requests_def

text \<open>
  Claim C6. Each provider fetch has three kinds of outcome. Without the credentials it
  needs (token unset or empty; for Radar, account or token) it returns \<^verbatim>\<open>null\<close> and sends
  nothing. With credentials, a response whose status is outside 200..299 makes it throw
  an error naming the status, and for Radar so does an envelope whose \<open>success\<close> is not
  truthy; these are \<open>Inl\<close>, never the \<open>Inr JNull\<close> of the unconfigured case. With
  credentials and a 2xx response whose body parses, ipinfo returns the payload and Radar
  returns the envelope's \<open>result\<close>. Every other outcome of a configured fetch (a
  rejected or timed-out request, an unparsable body) is thrown as well.
\<close>

theorem provider_fetch_outcomes:
  "(\<not> present (IPINFO_TOKEN env) \<longrightarrow> fetchIpInfoWorker W env a st = (Inr JNull, st))
   \<and> (present (IPINFO_TOKEN env) \<and> net W (netlog st) (ipinfo_request W env a) = Responds r \<and> \<not> ok r
        \<longrightarrow> fst (fetchIpInfoWorker W env a st)
              = Inl (Error (''ipinfo request failed: '' @ show_nat (status r))))
   \<and> (present (IPINFO_TOKEN env) \<and> net W (netlog st) (ipinfo_request W env a) = Responds r \<and> ok r
        \<and> body r = Some payload
        \<longrightarrow> fst (fetchIpInfoWorker W env a st) = Inr payload)
   \<and> (present (IPINFO_TOKEN env)
        \<and> \<not> (\<exists>r' p. net W (netlog st) (ipinfo_request W env a) = Responds r' \<and> ok r'
                    \<and> body r' = Some p)
        \<longrightarrow> isl (fst (fetchIpInfoWorker W env a st)))
   \<and> (\<not> (present (CLOUDFLARE_ACCOUNT_ID env) \<and> present (CLOUDFLARE_RADAR_TOKEN env))
        \<longrightarrow> fetchRadarWorker W env a st = (Inr JNull, st))
   \<and> (present (CLOUDFLARE_ACCOUNT_ID env) \<and> present (CLOUDFLARE_RADAR_TOKEN env)
        \<and> net W (netlog st) (radar_request W env a) = Responds r \<and> \<not> ok r
        \<longrightarrow> fst (fetchRadarWorker W env a st)
              = Inl (Error (''Cloudflare Radar request failed: '' @ show_nat (status r))))
   \<and> (present (CLOUDFLARE_ACCOUNT_ID env) \<and> present (CLOUDFLARE_RADAR_TOKEN env)
        \<and> net W (netlog st) (radar_request W env a) = Responds r \<and> ok r
        \<and> body r = Some payload \<and> js_get payload ''success'' = Inr s \<and> \<not> truthy s
        \<longrightarrow> fst (fetchRadarWorker W env a st) = Inl (Error ''Radar lookup unsuccessful''))
   \<and> (present (CLOUDFLARE_ACCOUNT_ID env) \<and> present (CLOUDFLARE_RADAR_TOKEN env)
        \<and> net W (netlog st) (radar_request W env a) = Responds r \<and> ok r
        \<and> body r = Some payload \<and> js_get payload ''success'' = Inr s \<and> truthy s
        \<longrightarrow> (\<exists>v. js_get payload ''result'' = Inr v \<and> fst (fetchRadarWorker W env a st) = Inr v))
   \<and> (present (CLOUDFLARE_ACCOUNT_ID env) \<and> present (CLOUDFLARE_RADAR_TOKEN env)
        \<and> \<not> (\<exists>r' p s'. net W (netlog st) (radar_request W env a) = Responds r' \<and> ok r'
                    \<and> body r' = Some p \<and> js_get p ''success'' = Inr s' \<and> truthy s')
        \<longrightarrow> isl (fst (fetchRadarWorker W env a st)))"
proof -
  have i: "present (IPINFO_TOKEN env)
        \<and> \<not> (\<exists>r' p. net W (netlog st) (ipinfo_request W env a) = Responds r' \<and> ok r'
                    \<and> body r' = Some p)
        \<longrightarrow> isl (fst (fetchIpInfoWorker W env a st))"
    by (auto simp add: fetchIpInfoWorker_result response_json_def
        split: fetch_outcome.splits option.splits)
  have r: "present (CLOUDFLARE_ACCOUNT_ID env) \<and> present (CLOUDFLARE_RADAR_TOKEN env)
        \<and> \<not> (\<exists>r' p s'. net W (netlog st) (radar_request W env a) = Responds r' \<and> ok r'
                    \<and> body r' = Some p \<and> js_get p ''success'' = Inr s' \<and> truthy s')
        \<longrightarrow> isl (fst (fetchRadarWorker W env a st))"
    by (auto simp add: fetchRadarWorker_result response_json_def
        split: fetch_outcome.splits option.splits sum.splits)
  show ?thesis
    using js_get_both[of payload "''success''" s "''result''"] i r
    by (auto simp add: fetchIpInfoWorker_absent fetchIpInfoWorker_result fetchRadarWorker_absent
        fetchRadarWorker_result response_json_def)
qed

theorem provider_fetch_outcomes_witness:
  "fetchIpInfoWorker (world_of ipinfo_ok radar_ok) env_none ''8.8.8.8'' (cold 0) = (Inr JNull, cold 0)
   \<and> fetchRadarWorker (world_of ipinfo_ok radar_ok) env_none ''8.8.8.8'' (cold 0) = (Inr JNull, cold 0)
   \<and> fst (fetchIpInfoWorker (world_of server_error server_error) env_both ''8.8.8.8'' (cold 0))
       = Inl (Error ''ipinfo request failed: 500'')
   \<and> fst (fetchRadarWorker (world_of server_error server_error) env_both ''8.8.8.8'' (cold 0))
       = Inl (Error ''Cloudflare Radar request failed: 500'')
   \<and> fst (fetchRadarWorker (world_of ipinfo_ok radar_refused) env_both ''8.8.8.8'' (cold 0))
       = Inl (Error ''Radar lookup unsuccessful'')
   \<and> fst (fetchIpInfoWorker (world_of ipinfo_ok radar_ok) env_both ''8.8.8.8'' (cold 0))
       = Inr (JObj [(''ip'', JStr ''8.8.8.8''), (''country'', JStr ''US''),
                    (''org'', JStr ''AS15169 Google LLC'')])
   \<and> fst (fetchRadarWorker (world_of ipinfo_ok radar_ok) env_both ''8.8.8.8'' (cold 0))
       = Inr (JObj [(''ip'', JStr ''8.8.8.8''), (''country'', JStr ''US''),
                    (''org'', JStr ''Google LLC'')])
   \<and> isl (fst (fetchIpInfoWorker (world_of timed_out timed_out) env_both ''8.8.8.8'' (cold 0)))
   \<and> isl (fst (fetchRadarWorker (world_of timed_out timed_out) env_both ''8.8.8.8'' (cold 0)))"
proof -
  let ?a = "''8.8.8.8''"
  let ?E = "world_of server_error server_error" and ?R = "world_of ipinfo_ok radar_refused"
    and ?K = "world_of ipinfo_ok radar_ok" and ?T = "world_of timed_out timed_out"
  let ?e = "\<lparr>status = 500, body = None\<rparr>"
  let ?i = "JObj [(''ip'', JStr ''8.8.8.8''), (''country'', JStr ''US''),
                  (''org'', JStr ''AS15169 Google LLC'')]"
  let ?v = "JObj [(''ip'', JStr ''8.8.8.8''), (''country'', JStr ''US''),
                  (''org'', JStr ''Google LLC'')]"
  let ?k = "JObj [(''success'', JBool True), (''result'', ?v)]"
  let ?f = "JObj [(''success'', JBool False)]"
  have unset: "\<not> present (IPINFO_TOKEN env_none)"
    "\<not> (present (CLOUDFLARE_ACCOUNT_ID env_none) \<and> present (CLOUDFLARE_RADAR_TOKEN env_none))"
    by (simp_all add: present_def env_none_def)
  have set: "present (IPINFO_TOKEN env_both)" "present (CLOUDFLARE_ACCOUNT_ID env_both)"
    "present (CLOUDFLARE_RADAR_TOKEN env_both)"
    by (simp_all add: present_def env_both_def)
  have e1: "net ?E (netlog (cold 0)) (ipinfo_request ?E env_both ?a) = Responds ?e \<and> \<not> ok ?e"
    by (simp add: ok_def fixtures requests)
  have e2: "net ?E (netlog (cold 0)) (radar_request ?E env_both ?a) = Responds ?e \<and> \<not> ok ?e"
    by (simp add: ok_def fixtures requests)
  have r: "net ?R (netlog (cold 0)) (radar_request ?R env_both ?a)
             = Responds \<lparr>status = 200, body = Some ?f\<rparr>
           \<and> ok \<lparr>status = 200, body = Some ?f\<rparr> \<and> body \<lparr>status = 200, body = Some ?f\<rparr> = Some ?f
           \<and> js_get ?f ''success'' = Inr (JBool False) \<and> \<not> truthy (JBool False)"
    by (simp add: ok_def fixtures requests)
  have k1: "net ?K (netlog (cold 0)) (ipinfo_request ?K env_both ?a)
             = Responds \<lparr>status = 200, body = Some ?i\<rparr>
           \<and> ok \<lparr>status = 200, body = Some ?i\<rparr> \<and> body \<lparr>status = 200, body = Some ?i\<rparr> = Some ?i"
    by (simp add: ok_def fixtures requests)
  have k2: "net ?K (netlog (cold 0)) (radar_request ?K env_both ?a)
             = Responds \<lparr>status = 200, body = Some ?k\<rparr>
           \<and> ok \<lparr>status = 200, body = Some ?k\<rparr> \<and> body \<lparr>status = 200, body = Some ?k\<rparr> = Some ?k
           \<and> js_get ?k ''success'' = Inr (JBool True) \<and> truthy (JBool True)"
    by (simp add: ok_def fixtures requests)
  have res: "js_get ?k ''result'' = Inr ?v"
    by simp
  have five: "show_nat (status ?e) = ''500''"
    by (simp add: show_nat_500)
  from provider_fetch_outcomes[of env_none ?K ?a "cold 0"] unset
  have c1: "fetchIpInfoWorker ?K env_none ?a (cold 0) = (Inr JNull, cold 0)"
    and c2: "fetchRadarWorker ?K env_none ?a (cold 0) = (Inr JNull, cold 0)"
    by blast+
  from provider_fetch_outcomes[of env_both ?E ?a "cold 0" ?e] set e1 e2
  have c3: "fst (fetchIpInfoWorker ?E env_both ?a (cold 0))
              = Inl (Error (''ipinfo request failed: '' @ show_nat (status ?e)))"
    and c4: "fst (fetchRadarWorker ?E env_both ?a (cold 0))
              = Inl (Error (''Cloudflare Radar request failed: '' @ show_nat (status ?e)))"
    by blast+
  from provider_fetch_outcomes[of env_both ?R ?a "cold 0" "\<lparr>status = 200, body = Some ?f\<rparr>" ?f "JBool False"] set r
  have c5: "fst (fetchRadarWorker ?R env_both ?a (cold 0)) = Inl (Error ''Radar lookup unsuccessful'')"
    by blast
  from provider_fetch_outcomes[of env_both ?K ?a "cold 0" "\<lparr>status = 200, body = Some ?i\<rparr>" ?i] set k1
  have c6: "fst (fetchIpInfoWorker ?K env_both ?a (cold 0)) = Inr ?i"
    by blast
  from provider_fetch_outcomes[of env_both ?K ?a "cold 0" "\<lparr>status = 200, body = Some ?k\<rparr>" ?k "JBool True"] set k2
  have "\<exists>v. js_get ?k ''result'' = Inr v \<and> fst (fetchRadarWorker ?K env_both ?a (cold 0)) = Inr v"
    by blast
  then have c7: "fst (fetchRadarWorker ?K env_both ?a (cold 0)) = Inr ?v"
    unfolding res by simp
  have t1: "\<not> (\<exists>r' p. net ?T (netlog (cold 0)) (ipinfo_request ?T env_both ?a) = Responds r'
                    \<and> ok r' \<and> body r' = Some p)"
    by (simp add: fixtures requests)
  have t2: "\<not> (\<exists>r' p s'. net ?T (netlog (cold 0)) (radar_request ?T env_both ?a) = Responds r'
                    \<and> ok r' \<and> body r' = Some p \<and> js_get p ''success'' = Inr s' \<and> truthy s')"
    by (simp add: fixtures requests)
  from provider_fetch_outcomes[of env_both ?T ?a "cold 0"] set t1 t2
  have c8: "isl (fst (fetchIpInfoWorker ?T env_both ?a (cold 0)))"
    and c9: "isl (fst (fetchRadarWorker ?T env_both ?a (cold 0)))"
    by blast+
  show ?thesis
    using c1 c2 c3 c4 c5 c6 c7 c8 c9 unfolding five by simp
qed

lemma verify_try_result:
  "fst (verify_try W env st) =
     (case net W (netlog st) (verify_request env) of
        Rejects e \<Rightarrow> Inl e
      | Responds r \<Rightarrow>
          if \<not> ok r then Inr False
          else (case response_json r of
                  Inl e \<Rightarrow> Inl e
                | Inr payload \<Rightarrow>
                    (case js_get payload ''success'' of Inl e \<Rightarrow> Inl e | Inr s \<Rightarrow> Inr (truthy s))))"
  by (simp add: verify_try_def fetchWithTimeout_eq verify_request_def
      split: fetch_outcome.splits sum.splits)

lemma verifyRadarToken_result:
  "fst (verifyRadarToken W env st) =
          (if \<not> present (CLOUDFLARE_ACCOUNT_ID env) \<or> \<not> present (CLOUDFLARE_RADAR_TOKEN env)
           then Inr False
           else (case fst (verify_try W env st) of Inl e \<Rightarrow> Inr False | Inr b \<Rightarrow> Inr b))"
  by (simp add: verifyRadarToken_def split: prod.splits sum.splits)

text \<open>
  Claim C8. \<open>verifyRadarToken\<close> never throws: it always returns a boolean. The boolean
  is \<^verbatim>\<open>true\<close> exactly when both Radar credentials are present, the verification request
  gets a 2xx response, its body parses, and the envelope's \<open>success\<close> is truthy; in every
  other case (credentials missing, request rejected or timed out, non-2xx status,
  unparsable or \<^verbatim>\<open>null\<close> body, \<open>success\<close> false or absent) it is \<^verbatim>\<open>false\<close>.
\<close>

theorem verifyRadarToken_never_throws:
  "(\<exists>b. fst (verifyRadarToken W env st) = Inr b)
   \<and> (fst (verifyRadarToken W env st) = Inr True \<longleftrightarrow>
        present (CLOUDFLARE_ACCOUNT_ID env) \<and> present (CLOUDFLARE_RADAR_TOKEN env)
        \<and> (\<exists>r payload s. net W (netlog st) (verify_request env) = Responds r \<and> ok r
              \<and> body r = Some payload \<and> js_get payload ''success'' = Inr s \<and> truthy s))"
  by (auto simp add: verifyRadarToken_result verify_try_result response_json_def
        split: fetch_outcome.splits sum.splits option.splits if_splits)

theorem verifyRadarToken_never_throws_witness:
  "fst (verifyRadarToken (world_of server_error radar_ok) env_both (cold 0)) = Inr True
   \<and> fst (verifyRadarToken (world_of server_error radar_refused) env_both (cold 0)) = Inr False
   \<and> fst (verifyRadarToken (world_of server_error timed_out) env_both (cold 0)) = Inr False
   \<and> fst (verifyRadarToken (world_of server_error server_error) env_both (cold 0)) = Inr False
   \<and> fst (verifyRadarToken (world_of server_error radar_ok) env_none (cold 0)) = Inr False"
proof -
  have not_true: "(\<exists>b. x = Inr b) \<Longrightarrow> x \<noteq> Inr True \<Longrightarrow> x = Inr False" for x :: "error + bool"
    by auto
  have set: "present (CLOUDFLARE_ACCOUNT_ID env_both) \<and> present (CLOUDFLARE_RADAR_TOKEN env_both)"
    by (simp add: present_def env_both_def)
  have unset: "\<not> present (CLOUDFLARE_ACCOUNT_ID env_none)"
    by (simp add: present_def env_none_def)
  have k: "net (world_of server_error radar_ok) (netlog (cold 0)) (verify_request env_both) = radar_ok"
    and f: "net (world_of server_error radar_refused) (netlog (cold 0)) (verify_request env_both)
              = radar_refused"
    and t: "net (world_of server_error timed_out) (netlog (cold 0)) (verify_request env_both)
              = timed_out"
    and e: "net (world_of server_error server_error) (netlog (cold 0)) (verify_request env_both)
              = server_error"
    by (simp_all add: world_of_def net_of_def requests env_both_def)
  have ex: "\<exists>r payload s. net (world_of server_error radar_ok) (netlog (cold 0))
                 (verify_request env_both) = Responds r \<and> ok r
              \<and> body r = Some payload \<and> js_get payload ''success'' = Inr s \<and> truthy s"
    unfolding k by (simp add: radar_ok_def ok_def)
  have c1: "fst (verifyRadarToken (world_of server_error radar_ok) env_both (cold 0)) = Inr True"
    using verifyRadarToken_never_throws[of "world_of server_error radar_ok" env_both "cold 0"] set ex
    by blast
  have n2: "\<not> (\<exists>r payload s. net (world_of server_error radar_refused) (netlog (cold 0))
                 (verify_request env_both) = Responds r \<and> ok r
              \<and> body r = Some payload \<and> js_get payload ''success'' = Inr s \<and> truthy s)"
    unfolding f by (simp add: radar_refused_def ok_def)
  have c2: "fst (verifyRadarToken (world_of server_error radar_refused) env_both (cold 0)) = Inr False"
    using verifyRadarToken_never_throws[of "world_of server_error radar_refused" env_both "cold 0"] n2
    by (intro not_true) blast+
  have n3: "\<not> (\<exists>r payload s. net (world_of server_error timed_out) (netlog (cold 0))
                 (verify_request env_both) = Responds r \<and> ok r
              \<and> body r = Some payload \<and> js_get payload ''success'' = Inr s \<and> truthy s)"
    unfolding t by (simp add: timed_out_def)
  have c3: "fst (verifyRadarToken (world_of server_error timed_out) env_both (cold 0)) = Inr False"
    using verifyRadarToken_never_throws[of "world_of server_error timed_out" env_both "cold 0"] n3
    by (intro not_true) blast+
  have n4: "\<not> (\<exists>r payload s. net (world_of server_error server_error) (netlog (cold 0))
                 (verify_request env_both) = Responds r \<and> ok r
              \<and> body r = Some payload \<and> js_get payload ''success'' = Inr s \<and> truthy s)"
    unfolding e by (simp add: server_error_def ok_def)
  have c4: "fst (verifyRadarToken (world_of server_error server_error) env_both (cold 0)) = Inr False"
    using verifyRadarToken_never_throws[of "world_of server_error server_error" env_both "cold 0"] n4
    by (intro not_true) blast+
  have c5: "fst (verifyRadarToken (world_of server_error radar_ok) env_none (cold 0)) = Inr False"
    using verifyRadarToken_never_throws[of "world_of server_error radar_ok" env_none "cold 0"] unset
    by (intro not_true) auto
  show ?thesis
    using c1 c2 c3 c4 c5 by simp
qed

section \<open>What an attempt changes in the state\<close>

lemma fetchIpInfoWorker_state:
  "snd (fetchIpInfoWorker W env a st) = st\<lparr>netlog := netlog st @ primary_requests W env a\<rparr>"
  by (simp add: fetchIpInfoWorker_def fetchWithTimeout_eq ipinfo_request_def primary_requests_def
      split: fetch_outcome.splits)

lemma fetchRadarWorker_state:
  "snd (fetchRadarWorker W env a st) = st\<lparr>netlog := netlog st @ secondary_requests W env a\<rparr>"
  by (simp add: fetchRadarWorker_def fetchWithTimeout_eq radar_request_def secondary_requests_def
      split: fetch_outcome.splits sum.splits)

lemma ipinfo_try_state:
  "snd (ipinfo_try W env a st) = st\<lparr>netlog := netlog st @ primary_requests W env a\<rparr>"
  using fetchIpInfoWorker_state[of W env a st]
  by (auto simp add: ipinfo_try_def split: prod.splits sum.splits)

lemma radar_try_state:
  "snd (radar_try W env a st) = st\<lparr>netlog := netlog st @ secondary_requests W env a\<rparr>"
  using fetchRadarWorker_state[of W env a st]
  by (auto simp add: radar_try_def split: prod.splits sum.splits)

lemma ipinfo_attempt_state:
  "snd (ipinfo_attempt W env m a st) =
     st\<lparr>netlog := netlog st @ primary_requests W env a,
        logs := logs st @ (if isl (fst (ipinfo_try W env a st)) then [(Warn, m)] else [])\<rparr>"
  using ipinfo_try_state[of W env a st]
  by (auto simp add: ipinfo_attempt_def log_def split: prod.splits sum.splits)

lemma radar_attempt_state:
  "snd (radar_attempt W env m a st) =
     st\<lparr>netlog := netlog st @ secondary_requests W env a,
        logs := logs st @ (if isl (fst (radar_try W env a st)) then [(Warn, m)] else [])\<rparr>"
  using radar_try_state[of W env a st]
  by (auto simp add: radar_attempt_def log_def split: prod.splits sum.splits)

lemma ipinfo_attempt_result:
  "fst (ipinfo_attempt W env m a st) = (case fst (ipinfo_try W env a st) of Inl e \<Rightarrow> None | Inr i \<Rightarrow> i)"
  by (simp add: ipinfo_attempt_def split: prod.splits sum.splits)

lemma radar_attempt_result:
  "fst (radar_attempt W env m a st) = (case fst (radar_try W env a st) of Inl e \<Rightarrow> None | Inr i \<Rightarrow> i)"
  by (simp add: radar_attempt_def split: prod.splits sum.splits)

lemma ipinfo_try_absent:
  "\<not> present (IPINFO_TOKEN env) \<Longrightarrow> fst (ipinfo_try W env a st) = Inr None"
  by (simp add: ipinfo_try_def fetchIpInfoWorker_def)

lemma radar_try_absent:
  "\<not> (present (CLOUDFLARE_ACCOUNT_ID env) \<and> present (CLOUDFLARE_RADAR_TOKEN env)) \<Longrightarrow>
   fst (radar_try W env a st) = Inr None"
  by (auto simp add: radar_try_def fetchRadarWorker_def)

lemma attempt_providers_state:
  "snd (attempt_providers W env m1 m2 a st) =
     (let s1 = snd (ipinfo_attempt W env m1 a st)
      in if fst (ipinfo_attempt W env m1 a st) = None then snd (radar_attempt W env m2 a s1) else s1)"
  by (simp add: attempt_providers_def Let_def split: prod.splits option.splits)

lemma attempt_providers_result:
  "fst (attempt_providers W env m1 m2 a st) =
     (case fst (ipinfo_attempt W env m1 a st) of
        Some i \<Rightarrow> Some i
      | None \<Rightarrow> fst (radar_attempt W env m2 a (snd (ipinfo_attempt W env m1 a st))))"
  by (simp add: attempt_providers_def split: prod.splits option.splits)

lemma attempt_providers_frame:
  "cache (snd (attempt_providers W env m1 m2 a st)) = cache st
   \<and> cache_sets (snd (attempt_providers W env m1 m2 a st)) = cache_sets st
   \<and> resolved (snd (attempt_providers W env m1 m2 a st)) = resolved st
   \<and> pending (snd (attempt_providers W env m1 m2 a st)) = pending st
   \<and> invocations (snd (attempt_providers W env m1 m2 a st)) = invocations st
   \<and> background (snd (attempt_providers W env m1 m2 a st)) = background st
   \<and> now (snd (attempt_providers W env m1 m2 a st)) = now st"
  by (simp add: attempt_providers_state Let_def ipinfo_attempt_state radar_attempt_state)

lemma attempt_providers_netlog:
  "netlog (snd (attempt_providers W env m1 m2 a st)) =
     netlog st @ primary_requests W env a
       @ (if fst (ipinfo_attempt W env m1 a st) = None then secondary_requests W env a else [])"
  by (simp add: attempt_providers_state Let_def ipinfo_attempt_state radar_attempt_state)

lemma ipinfo_attempt_unconfigured:
  "\<not> present (IPINFO_TOKEN env) \<Longrightarrow> ipinfo_attempt W env m a st = (None, st)"
  by (simp add: ipinfo_attempt_def ipinfo_try_def fetchIpInfoWorker_def)

lemma radar_attempt_unconfigured:
  "\<not> (present (CLOUDFLARE_ACCOUNT_ID env) \<and> present (CLOUDFLARE_RADAR_TOKEN env)) \<Longrightarrow>
   radar_attempt W env m a st = (None, st)"
  by (simp add: radar_attempt_def radar_try_def fetchRadarWorker_absent)

lemma ipinfo_attempt_Some_present:
  "fst (ipinfo_attempt W env m a st) = Some i \<Longrightarrow> present (IPINFO_TOKEN env)"
  using ipinfo_try_absent[of env W a st]
  by (cases "present (IPINFO_TOKEN env)") (simp_all add: ipinfo_attempt_result)

lemma fetchIpInfoWorker_fails_present:
  "isl (fst (fetchIpInfoWorker W env a st)) \<Longrightarrow> present (IPINFO_TOKEN env)"
  by (cases "present (IPINFO_TOKEN env)") (simp_all add: fetchIpInfoWorker_def)

lemma fetchRadarWorker_truthy_present:
  "fetchRadarWorker W env a st = (Inr p, s) \<Longrightarrow> truthy p \<Longrightarrow>
   present (CLOUDFLARE_ACCOUNT_ID env) \<and> present (CLOUDFLARE_RADAR_TOKEN env)"
  by (cases "present (CLOUDFLARE_ACCOUNT_ID env) \<and> present (CLOUDFLARE_RADAR_TOKEN env)")
     (auto simp add: fetchRadarWorker_absent)

text \<open>
  The attempts neither read nor write the deduplicator's tickets and the settled promises,
  so they commute with an update of those.
\<close>

lemma fetchWithTimeout_tickets:
  "fetchWithTimeout W u hs (st\<lparr>resolved := r, pending := p, invocations := i\<rparr>) =
     (case fetchWithTimeout W u hs st of (x, s) \<Rightarrow> (x, s\<lparr>resolved := r, pending := p, invocations := i\<rparr>))"
  by (simp add: fetchWithTimeout_eq)

lemma fetchIpInfoWorker_tickets:
  "fetchIpInfoWorker W env a (st\<lparr>resolved := r, pending := p, invocations := i\<rparr>) =
     (case fetchIpInfoWorker W env a st of (x, s) \<Rightarrow> (x, s\<lparr>resolved := r, pending := p, invocations := i\<rparr>))"
  by (simp add: fetchIpInfoWorker_def fetchWithTimeout_tickets split: prod.splits sum.splits)

lemma fetchRadarWorker_tickets:
  "fetchRadarWorker W env a (st\<lparr>resolved := r, pending := p, invocations := i\<rparr>) =
     (case fetchRadarWorker W env a st of (x, s) \<Rightarrow> (x, s\<lparr>resolved := r, pending := p, invocations := i\<rparr>))"
  by (simp add: fetchRadarWorker_def fetchWithTimeout_tickets split: prod.splits sum.splits)

lemma ipinfo_attempt_tickets:
  "ipinfo_attempt W env m a (st\<lparr>resolved := r, pending := p, invocations := i\<rparr>) =
     (case ipinfo_attempt W env m a st of (x, s) \<Rightarrow> (x, s\<lparr>resolved := r, pending := p, invocations := i\<rparr>))"
  by (simp add: ipinfo_attempt_def ipinfo_try_def fetchIpInfoWorker_tickets log_def
      split: prod.splits sum.splits)

lemma radar_attempt_tickets:
  "radar_attempt W env m a (st\<lparr>resolved := r, pending := p, invocations := i\<rparr>) =
     (case radar_attempt W env m a st of (x, s) \<Rightarrow> (x, s\<lparr>resolved := r, pending := p, invocations := i\<rparr>))"
  by (simp add: radar_attempt_def radar_try_def fetchRadarWorker_tickets log_def
      split: prod.splits sum.splits)

lemma attempt_providers_tickets:
  "attempt_providers W env m1 m2 a (st\<lparr>resolved := r, pending := p, invocations := i\<rparr>) =
     (case attempt_providers W env m1 m2 a st of
        (x, s) \<Rightarrow> (x, s\<lparr>resolved := r, pending := p, invocations := i\<rparr>))"
  by (simp add: attempt_providers_def ipinfo_attempt_tickets radar_attempt_tickets
      split: prod.splits option.splits)

lemma getWithStale_tickets:
  "getWithStale (st\<lparr>resolved := r, pending := p, invocations := i\<rparr>) a = getWithStale st a"
  by (auto simp add: getWithStale_def Let_def split: option.splits)

lemma lookupFactory_tickets:
  "lookupFactory W env a (st\<lparr>resolved := r, pending := p, invocations := i\<rparr>) =
     (case lookupFactory W env a st of
        (x, s) \<Rightarrow> (x, s\<lparr>resolved := r, pending := p, invocations := i\<rparr>))"
  by (simp add: lookupFactory_def attempt_providers_tickets getWithStale_tickets cache_set_def
      split: prod.splits option.splits)

section \<open>The revalidation a stale read starts\<close>

text \<open>
  Starting a revalidation sends the primary's request, if there is a token, and queues
  the task; resuming the task at once completes exactly \<open>revalidateIpInsight\<close>.
\<close>

lemma fetchIpInfoWorker_netlog_only:
  "netlog s = netlog t \<Longrightarrow> fst (fetchIpInfoWorker W env a s) = fst (fetchIpInfoWorker W env a t)"
  by (simp add: fetchIpInfoWorker_def fetchWithTimeout_eq split: fetch_outcome.splits)

lemma revalidate_start_eq:
  "revalidate_start W env a st =
     st\<lparr>netlog := netlog st @ primary_requests W env a,
        background := background st @ [\<lparr>rv_ip = a, rv_ipinfo = fst (fetchIpInfoWorker W env a st)\<rparr>]\<rparr>"
  using fetchIpInfoWorker_state[of W env a st]
  by (cases "fetchIpInfoWorker W env a st") (simp add: revalidate_start_def)

lemma ipinfo_attempt_split:
  "ipinfo_attempt W env msg a st =
     ipinfo_settled W msg (fst (fetchIpInfoWorker W env a st)) (snd (fetchIpInfoWorker W env a st))"
  by (cases "fetchIpInfoWorker W env a st")
     (simp add: ipinfo_attempt_def ipinfo_try_def ipinfo_settled_def split: sum.splits)

lemma revalidate_split:
  "revalidate_resume W env \<lparr>rv_ip = a, rv_ipinfo = fst (fetchIpInfoWorker W env a st)\<rparr>
       (snd (fetchIpInfoWorker W env a st))
     = revalidateIpInsight W env a st"
  by (auto simp add: revalidate_resume_def revalidate_resume_try_def revalidateIpInsight_def
      revalidate_try_def attempt_providers_def ipinfo_attempt_split
      split: prod.splits option.splits)

text \<open>A resumed revalidation reads and writes neither the queue nor any caller's promise.\<close>

lemma fetchWithTimeout_detached:
  "fetchWithTimeout W u hs (st\<lparr>resolved := r, background := q\<rparr>) =
     (case fetchWithTimeout W u hs st of (x, s) \<Rightarrow> (x, s\<lparr>resolved := r, background := q\<rparr>))"
  by (simp add: fetchWithTimeout_eq)

lemma fetchRadarWorker_detached:
  "fetchRadarWorker W env a (st\<lparr>resolved := r, background := q\<rparr>) =
     (case fetchRadarWorker W env a st of (x, s) \<Rightarrow> (x, s\<lparr>resolved := r, background := q\<rparr>))"
  by (simp add: fetchRadarWorker_def fetchWithTimeout_detached split: prod.splits sum.splits)

lemma radar_attempt_detached:
  "radar_attempt W env m a (st\<lparr>resolved := r, background := q\<rparr>) =
     (case radar_attempt W env m a st of (x, s) \<Rightarrow> (x, s\<lparr>resolved := r, background := q\<rparr>))"
  by (simp add: radar_attempt_def radar_try_def fetchRadarWorker_detached log_def
      split: prod.splits sum.splits)

lemma ipinfo_settled_detached:
  "ipinfo_settled W m p (st\<lparr>resolved := r, background := q\<rparr>) =
     (case ipinfo_settled W m p st of (x, s) \<Rightarrow> (x, s\<lparr>resolved := r, background := q\<rparr>))"
  by (simp add: ipinfo_settled_def log_def split: sum.splits)

lemma revalidate_resume_detached:
  "revalidate_resume W env t (st\<lparr>resolved := r, background := q\<rparr>) =
     (case revalidate_resume W env t st of (x, s) \<Rightarrow> (x, s\<lparr>resolved := r, background := q\<rparr>))"
  by (simp add: revalidate_resume_def revalidate_resume_try_def ipinfo_settled_detached
      radar_attempt_detached log_def cache_set_def split: prod.splits option.splits sum.splits)

lemma revalidate_resume_returns: "fst (revalidate_resume W env t st) = Inr ()"
  by (simp add: revalidate_resume_def split: prod.splits sum.splits)

lemma run_background_Cons:
  assumes "background st = t # rest"
  shows "run_background W env st = snd (revalidate_resume W env t (st\<lparr>background := rest\<rparr>))"
  using assms revalidate_resume_returns[of W env t "st\<lparr>background := rest\<rparr>"]
  by (cases "revalidate_resume W env t (st\<lparr>background := rest\<rparr>)")
     (simp add: run_background_def)

lemma ipinfo_settled_frame:
  "resolved (snd (ipinfo_settled W m p st)) = resolved st
   \<and> pending (snd (ipinfo_settled W m p st)) = pending st"
  by (simp add: ipinfo_settled_def log_def split: sum.splits)

lemma revalidate_resume_frame:
  "resolved (snd (revalidate_resume W env t st)) = resolved st
   \<and> pending (snd (revalidate_resume W env t st)) = pending st"
proof -
  let ?p = "ipinfo_settled W ''ipinfo revalidation failed'' (rv_ipinfo t) st"
  let ?r = "radar_attempt W env ''Cloudflare Radar revalidation failed'' (rv_ip t) (snd ?p)"
  have r: "resolved (snd ?r) = resolved st \<and> pending (snd ?r) = pending st"
    using ipinfo_settled_frame[of W "''ipinfo revalidation failed''" "rv_ipinfo t" st]
    by (simp add: radar_attempt_state)
  show ?thesis
    using r ipinfo_settled_frame[of W "''ipinfo revalidation failed''" "rv_ipinfo t" st]
    by (cases ?p; cases ?r)
       (auto simp add: revalidate_resume_def revalidate_resume_try_def log_def cache_set_def
         split: option.splits)
qed

section \<open>The lookup\<close>

lemma lookupFactory_miss:
  assumes "getWithStale st a = (None, b)"
  shows "lookupFactory W env a st =
           (case attempt_providers W env ''ipinfo lookup failed'' ''Cloudflare Radar lookup failed'' a st of
              (None, s) \<Rightarrow> (Inl (ApiError 502 ''Unable to fetch IP intelligence''), s)
            | (Some i, s) \<Rightarrow> (Inr i, cache_set a i s))"
  using assms by (simp add: lookupFactory_def)

lemma lookupFactory_netlog:
  assumes "getWithStale st a = (None, b)"
  shows "netlog (snd (lookupFactory W env a st)) =
     netlog st @ primary_requests W env a
       @ (if fst (ipinfo_attempt W env ''ipinfo lookup failed'' a st) = None
          then secondary_requests W env a else [])"
  using attempt_providers_netlog[of W env "''ipinfo lookup failed''" "''Cloudflare Radar lookup failed''" a st]
  by (auto simp add: lookupFactory_miss[OF assms] cache_set_def split: prod.splits option.splits)

lemma await_miss:
  assumes "getWithStale st a = (None, b)" and "pending st (''ip:'' @ a) = None"
  shows "await_lookupIpInsight W env c a st =
           (case lookupFactory W env a st of
              (r, s) \<Rightarrow>
                (Some r, s\<lparr>resolved := (resolved st)(c \<mapsto> r), pending := pending st,
                           invocations := invocations st @ [''ip:'' @ a]\<rparr>))"
proof -
  have idem: "(pending st)(''ip:'' @ a := None) = pending st"
    using assms(2) by (simp add: fun_upd_idem_iff)
  have res: "(\<lambda>ca. if ca = c then Some r else ((resolved st)(c := None)) ca) = (resolved st)(c \<mapsto> r)" for r
    by (simp add: fun_eq_iff)
  show ?thesis
    using assms idem
    by (auto simp add: await_lookupIpInsight_def lookupIpInsight_def deduplicate_def settle_def
        lookupFactory_tickets Let_def fun_eq_iff split: prod.splits cong: if_cong)
qed

lemma await_hit:
  assumes "getWithStale st a = (Some e, isStale)"
  shows "await_lookupIpInsight W env c a st = (Some (Inr (data e)), lookupIpInsight W env c a st)"
  using assms by (simp add: await_lookupIpInsight_def lookupIpInsight_def Let_def)

lemmas evals =
  getWithStale_def ipinfo_attempt_def ipinfo_try_def radar_attempt_def radar_try_def
  fetchIpInfoWorker_def fetchRadarWorker_def fetchWithTimeout_eq ok_def
  response_json_def log_def verify_try_def

lemma primary_500:
  "fst (ipinfo_attempt (world_of server_error out) env_both m ''8.8.8.8'' (cold t)) = None"
  by (simp add: ipinfo_attempt_def ipinfo_try_def fetchIpInfoWorker_def fetchWithTimeout_eq
      ok_def fixtures requests)

lemma secondary_refused:
  "netlog st = [ipinfo_request (world_of p radar_refused) env_both ''8.8.8.8''] \<Longrightarrow> fst (radar_attempt (world_of p radar_refused) env_both m ''8.8.8.8'' st) = None"
  by (simp add: radar_attempt_def radar_try_def fetchRadarWorker_def fetchWithTimeout_eq
      ok_def response_json_def fixtures requests)

text \<open>
  Claim C1. A lookup that misses the cache, with no resolution in flight for the
  address, and whose primary attempt and then secondary attempt both leave the insight
  \<^verbatim>\<open>null\<close> (the provider failed or is not configured), rejects with
  \<open>ApiError 502 ''Unable to fetch IP intelligence''\<close>; the cache is as before and no
  \<^verbatim>\<open>set\<close> was performed.
\<close>

theorem lookup_total_failure:
  assumes miss: "getWithStale st a = (None, b)"
    and idle: "pending st (''ip:'' @ a) = None"
    and primary: "ipinfo_attempt W env ''ipinfo lookup failed'' a st = (None, st1)"
    and secondary: "radar_attempt W env ''Cloudflare Radar lookup failed'' a st1 = (None, st2)"
  shows "fst (await_lookupIpInsight W env c a st)
           = Some (Inl (ApiError 502 ''Unable to fetch IP intelligence''))
         \<and> cache (snd (await_lookupIpInsight W env c a st)) = cache st
         \<and> cache_sets (snd (await_lookupIpInsight W env c a st)) = cache_sets st"
proof -
  have s1: "st1 = snd (ipinfo_attempt W env ''ipinfo lookup failed'' a st)"
    using primary by simp
  have s2: "st2 = snd (radar_attempt W env ''Cloudflare Radar lookup failed'' a st1)"
    using secondary by simp
  have frame: "cache st2 = cache st \<and> cache_sets st2 = cache_sets st"
    unfolding s2 radar_attempt_state unfolding s1 ipinfo_attempt_state by simp
  have fac: "lookupFactory W env a st
               = (Inl (ApiError 502 ''Unable to fetch IP intelligence''), st2)"
    using miss primary secondary by (simp add: lookupFactory_def attempt_providers_def)
  show ?thesis
    using miss idle frame
    by (simp add: await_lookupIpInsight_def lookupIpInsight_def deduplicate_def settle_def
        lookupFactory_tickets fac Let_def)
qed

theorem lookup_total_failure_witness:
  "fst (await_lookupIpInsight (world_of server_error radar_refused) env_both 1 ''8.8.8.8'' (cold 0))
     = Some (Inl (ApiError 502 ''Unable to fetch IP intelligence''))
   \<and> cache (snd (await_lookupIpInsight (world_of server_error radar_refused) env_both 1 ''8.8.8.8'' (cold 0)))
       = cache (cold 0)
   \<and> cache_sets (snd (await_lookupIpInsight (world_of server_error radar_refused) env_both 1 ''8.8.8.8'' (cold 0)))
       = cache_sets (cold 0)
   \<and> fst (await_lookupIpInsight (world_of ipinfo_ok radar_ok) env_none 1 ''8.8.8.8'' (cold 0))
       = Some (Inl (ApiError 502 ''Unable to fetch IP intelligence''))
   \<and> cache_sets (snd (await_lookupIpInsight (world_of ipinfo_ok radar_ok) env_none 1 ''8.8.8.8'' (cold 0)))
       = cache_sets (cold 0)"
proof -
  let ?W = "world_of server_error radar_refused" and ?U = "world_of ipinfo_ok radar_ok"
  let ?s1 = "snd (ipinfo_attempt ?W env_both ''ipinfo lookup failed'' ''8.8.8.8'' (cold 0))"
  let ?s2 = "snd (radar_attempt ?W env_both ''Cloudflare Radar lookup failed'' ''8.8.8.8'' ?s1)"
  have miss: "getWithStale (cold 0) ''8.8.8.8'' = (None, False)"
    by (simp add: getWithStale_def cold_def)
  have idle: "pending (cold 0) (''ip:'' @ ''8.8.8.8'') = None"
    by (simp add: cold_def)
  have p: "ipinfo_attempt ?W env_both ''ipinfo lookup failed'' ''8.8.8.8'' (cold 0) = (None, ?s1)"
    using primary_500[of radar_refused "''ipinfo lookup failed''" 0] by (simp add: prod_eq_iff)
  have "netlog ?s1 = [ipinfo_request ?W env_both ''8.8.8.8'']"
    by (simp add: ipinfo_attempt_state primary_requests_def present_def env_both_def cold_def)
  then have q: "radar_attempt ?W env_both ''Cloudflare Radar lookup failed'' ''8.8.8.8'' ?s1 = (None, ?s2)"
    using secondary_refused[of ?s1 server_error "''Cloudflare Radar lookup failed''"]
    by (simp add: prod_eq_iff)
  have unset: "\<not> present (IPINFO_TOKEN env_none)"
    "\<not> (present (CLOUDFLARE_ACCOUNT_ID env_none) \<and> present (CLOUDFLARE_RADAR_TOKEN env_none))"
    by (simp_all add: present_def env_none_def)
  note failing = lookup_total_failure[OF miss idle p q, of 1]
  note unconfigured =
    lookup_total_failure[OF miss idle ipinfo_attempt_unconfigured[OF unset(1)]
      radar_attempt_unconfigured[OF unset(2)], of ?U 1]
  from failing unconfigured show ?thesis
    by blast
qed

text \<open>
  Claim C2. On a miss with no resolution in flight for the address, the primary is
  attempted first. If it yields an insight, that insight is the result and the only
  request sent is the primary's: the secondary is not attempted. If it yields none and
  the secondary fetch returns a truthy payload that \<open>normalizeRadar\<close> maps to \<open>i\<close>, the
  result is \<open>i\<close>, \<open>i\<close> is stored under the address with the current time by one
  \<^verbatim>\<open>set\<close>, and the requests sent are the primary's (if it has a token) followed by the
  secondary's; when the primary fetch threw, they are exactly one primary request and
  one secondary request, in that order.
\<close>

theorem lookup_fallback_order:
  assumes miss: "getWithStale st a = (None, b)" and idle: "pending st (''ip:'' @ a) = None"
  shows
   "(fst (ipinfo_attempt W env ''ipinfo lookup failed'' a st) = Some i \<longrightarrow>
        fst (await_lookupIpInsight W env c a st) = Some (Inr i)
      \<and> netlog (snd (await_lookupIpInsight W env c a st)) = netlog st @ [ipinfo_request W env a])
    \<and> (ipinfo_attempt W env ''ipinfo lookup failed'' a st = (None, st1)
        \<and> fetchRadarWorker W env a st1 = (Inr payload, st2) \<and> truthy payload
        \<and> normalizeRadar W payload = Inr i \<longrightarrow>
        fst (await_lookupIpInsight W env c a st) = Some (Inr i)
      \<and> cache (snd (await_lookupIpInsight W env c a st))
          = (cache st)(a \<mapsto> \<lparr>data = i, storedAt = now st\<rparr>)
      \<and> cache_sets (snd (await_lookupIpInsight W env c a st)) = cache_sets st @ [(a, i)]
      \<and> netlog (snd (await_lookupIpInsight W env c a st))
          = netlog st @ primary_requests W env a @ [radar_request W env a]
      \<and> (isl (fst (fetchIpInfoWorker W env a st)) \<longrightarrow>
           netlog (snd (await_lookupIpInsight W env c a st))
             = netlog st @ [ipinfo_request W env a, radar_request W env a]))"
proof (intro conjI impI)
  let ?m1 = "''ipinfo lookup failed''" and ?m2 = "''Cloudflare Radar lookup failed''"
  note aw = await_miss[OF miss idle, of W env c]
  note fac = lookupFactory_miss[OF miss, of W env]
  note nl = lookupFactory_netlog[OF miss, of W env]
  {
    assume p: "fst (ipinfo_attempt W env ?m1 a st) = Some i"
    then have ap: "fst (attempt_providers W env ?m1 ?m2 a st) = Some i"
      by (simp add: attempt_providers_result)
    then have f: "fst (lookupFactory W env a st) = Inr i"
      by (auto simp add: fac split: prod.splits option.splits)
    show "fst (await_lookupIpInsight W env c a st) = Some (Inr i)"
      using f by (auto simp add: aw split: prod.splits)
    show "netlog (snd (await_lookupIpInsight W env c a st)) = netlog st @ [ipinfo_request W env a]"
      using nl p ipinfo_attempt_Some_present[OF p]
      by (auto simp add: aw primary_requests_def split: prod.splits)
  }
  {
    assume h: "ipinfo_attempt W env ?m1 a st = (None, st1)
        \<and> fetchRadarWorker W env a st1 = (Inr payload, st2) \<and> truthy payload
        \<and> normalizeRadar W payload = Inr i"
    then have p: "fst (ipinfo_attempt W env ?m1 a st) = None"
      and s1: "st1 = snd (ipinfo_attempt W env ?m1 a st)" by simp_all
    from h have creds: "present (CLOUDFLARE_ACCOUNT_ID env) \<and> present (CLOUDFLARE_RADAR_TOKEN env)"
      using fetchRadarWorker_truthy_present by blast
    from h have r: "radar_attempt W env ?m2 a st1 = (Some i, st2)"
      by (simp add: radar_attempt_def radar_try_def)
    then have s2: "st2 = snd (radar_attempt W env ?m2 a st1)" by simp
    from h r have ap: "attempt_providers W env ?m1 ?m2 a st = (Some i, st2)"
      by (simp add: attempt_providers_def)
    have f: "lookupFactory W env a st = (Inr i, cache_set a i st2)"
      by (simp add: fac ap)
    have fr: "cache st2 = cache st \<and> cache_sets st2 = cache_sets st \<and> now st2 = now st"
      using attempt_providers_frame[of W env ?m1 ?m2 a st] by (simp add: ap)
    show "fst (await_lookupIpInsight W env c a st) = Some (Inr i)"
      by (simp add: aw f)
    show "cache (snd (await_lookupIpInsight W env c a st))
          = (cache st)(a \<mapsto> \<lparr>data = i, storedAt = now st\<rparr>)"
      using fr by (simp add: aw f cache_set_def)
    show "cache_sets (snd (await_lookupIpInsight W env c a st)) = cache_sets st @ [(a, i)]"
      using fr by (simp add: aw f cache_set_def)
    show n: "netlog (snd (await_lookupIpInsight W env c a st))
          = netlog st @ primary_requests W env a @ [radar_request W env a]"
      using nl p creds by (auto simp add: aw secondary_requests_def split: prod.splits)
    {
      assume "isl (fst (fetchIpInfoWorker W env a st))"
      then have "present (IPINFO_TOKEN env)" by (rule fetchIpInfoWorker_fails_present)
      then show "netlog (snd (await_lookupIpInsight W env c a st))
             = netlog st @ [ipinfo_request W env a, radar_request W env a]"
        using n by (simp add: primary_requests_def)
    }
  }
qed

theorem lookup_fallback_order_witness:
  "fst (await_lookupIpInsight (world_of ipinfo_ok radar_ok) env_both 1 ''8.8.8.8'' (cold 0))
     = Some (Inr (google\<lparr>org := Some ''AS15169 Google LLC''\<rparr>))
   \<and> netlog (snd (await_lookupIpInsight (world_of ipinfo_ok radar_ok) env_both 1 ''8.8.8.8'' (cold 0)))
       = [ipinfo_request (world_of ipinfo_ok radar_ok) env_both ''8.8.8.8'']
   \<and> fst (await_lookupIpInsight (world_of server_error radar_ok) env_both 1 ''8.8.8.8'' (cold 0))
       = Some (Inr google)
   \<and> cache (snd (await_lookupIpInsight (world_of server_error radar_ok) env_both 1 ''8.8.8.8'' (cold 0)))
       = [''8.8.8.8'' \<mapsto> \<lparr>data = google, storedAt = 0\<rparr>]
   \<and> cache_sets (snd (await_lookupIpInsight (world_of server_error radar_ok) env_both 1 ''8.8.8.8'' (cold 0)))
       = [(''8.8.8.8'', google)]
   \<and> netlog (snd (await_lookupIpInsight (world_of server_error radar_ok) env_both 1 ''8.8.8.8'' (cold 0)))
       = [ipinfo_request (world_of server_error radar_ok) env_both ''8.8.8.8'',
          radar_request (world_of server_error radar_ok) env_both ''8.8.8.8'']"
proof -
  let ?A = "world_of ipinfo_ok radar_ok" and ?B = "world_of server_error radar_ok"
  let ?s1 = "snd (ipinfo_attempt ?B env_both ''ipinfo lookup failed'' ''8.8.8.8'' (cold 0))"
  let ?p = "JObj [(''ip'', JStr ''8.8.8.8''), (''country'', JStr ''US''), (''org'', JStr ''Google LLC'')]"
  have miss: "getWithStale (cold 0) ''8.8.8.8'' = (None, False)"
    by (simp add: getWithStale_def cold_def)
  have idle: "pending (cold 0) (''ip:'' @ ''8.8.8.8'') = None"
    by (simp add: cold_def)
  have a: "fst (ipinfo_attempt ?A env_both ''ipinfo lookup failed'' ''8.8.8.8'' (cold 0))
             = Some (google\<lparr>org := Some ''AS15169 Google LLC''\<rparr>)"
    by (simp add: evals fixtures requests)
  have b1: "ipinfo_attempt ?B env_both ''ipinfo lookup failed'' ''8.8.8.8'' (cold 0) = (None, ?s1)"
    by (simp add: prod_eq_iff evals fixtures requests)
  have b2: "fetchRadarWorker ?B env_both ''8.8.8.8'' ?s1
              = (Inr ?p, snd (fetchRadarWorker ?B env_both ''8.8.8.8'' ?s1))"
    by (simp add: prod_eq_iff evals fixtures requests)
  have b3: "truthy ?p" by simp
  have b4: "normalizeRadar ?B ?p = Inr google"
    by (simp add: fixtures)
  have b5: "isl (fst (fetchIpInfoWorker ?B env_both ''8.8.8.8'' (cold 0)))"
    by (simp add: evals fixtures requests)
  have cold_facts: "cache (cold 0) = Map.empty" "cache_sets (cold 0) = []" "netlog (cold 0) = []"
    "now (cold 0) = 0"
    by (simp_all add: cold_def)
  note A = lookup_fallback_order[OF miss idle, where W = ?A and env = env_both and c = 1
               and i = "google\<lparr>org := Some ''AS15169 Google LLC''\<rparr>",
             THEN conjunct1, THEN mp, OF a]
  note B = lookup_fallback_order[OF miss idle, where W = ?B and env = env_both and c = 1 and i = google
               and ?st1.0 = ?s1 and payload = ?p
               and ?st2.0 = "snd (fetchRadarWorker ?B env_both ''8.8.8.8'' ?s1)",
             THEN conjunct2, THEN mp, OF conjI[OF b1 conjI[OF b2 conjI[OF b3 b4]]]]
  note A' = A[unfolded cold_facts append_Nil]
  note B' = B[unfolded cold_facts append_Nil]
  from A' B' b5 show ?thesis by blast
qed

text \<open>
  Claim C3. When \<open>getWithStale\<close> returns an entry, the caller's promise is settled with
  the entry's data within the call itself, whatever the network does: the read takes no
  ticket in the deduplicator, invokes no factory, writes nothing to the cache and
  consumes no response. A fresh entry changes nothing but the caller's promise, so no
  request is sent. A stale entry starts exactly one revalidation of the address: the
  queue grows by that one task, the only request sent during the call is the one that
  \<open>revalidateIpInsight\<close> sends before its first \<^verbatim>\<open>await\<close> (the primary's, if it has a token),
  and resuming the task completes \<open>revalidateIpInsight\<close> for the address, leaving the
  caller's result as it was.
\<close>

theorem lookup_serves_cached_entry:
  assumes "getWithStale st a = (Some e, isStale)"
  shows "resolved (lookupIpInsight W env c a st) c = Some (Inr (data e))
     \<and> fst (await_lookupIpInsight W env c a st) = Some (Inr (data e))
     \<and> snd (await_lookupIpInsight W env c a st) = lookupIpInsight W env c a st
     \<and> pending (lookupIpInsight W env c a st) = pending st
     \<and> invocations (lookupIpInsight W env c a st) = invocations st
     \<and> cache (lookupIpInsight W env c a st) = cache st
     \<and> cache_sets (lookupIpInsight W env c a st) = cache_sets st
     \<and> (\<not> isStale \<longrightarrow>
          lookupIpInsight W env c a st = st\<lparr>resolved := (resolved st)(c \<mapsto> Inr (data e))\<rparr>
          \<and> netlog (lookupIpInsight W env c a st) = netlog st
          \<and> background (lookupIpInsight W env c a st) = background st)
     \<and> (isStale \<longrightarrow>
          background (lookupIpInsight W env c a st)
            = background st @ [\<lparr>rv_ip = a, rv_ipinfo = fst (fetchIpInfoWorker W env a st)\<rparr>]
          \<and> netlog (lookupIpInsight W env c a st) = netlog st @ primary_requests W env a
          \<and> (background st = [] \<longrightarrow>
               run_background W env (lookupIpInsight W env c a st)
                 = (snd (revalidateIpInsight W env a
                           (log Debug ''Serving stale data, revalidating in background'' st)))
                     \<lparr>resolved := (resolved st)(c \<mapsto> Inr (data e))\<rparr>))"
proof -
  let ?L = "log Debug ''Serving stale data, revalidating in background'' st"
  let ?t = "\<lparr>rv_ip = a, rv_ipinfo = fst (fetchIpInfoWorker W env a ?L)\<rparr>"
  let ?R = "(resolved st)(c \<mapsto> Inr (data e))"
  have same: "fst (fetchIpInfoWorker W env a ?L) = fst (fetchIpInfoWorker W env a st)"
    by (rule fetchIpInfoWorker_netlog_only) (simp add: log_def)
  have fresh: "\<not> isStale \<Longrightarrow>
      lookupIpInsight W env c a st = st\<lparr>resolved := ?R\<rparr>"
    using assms by (simp add: lookupIpInsight_def)
  have stale: "isStale \<Longrightarrow>
      lookupIpInsight W env c a st
        = ?L\<lparr>netlog := netlog st @ primary_requests W env a,
              background := background st @ [?t], resolved := ?R\<rparr>"
    using assms by (simp add: lookupIpInsight_def revalidate_start_eq Let_def log_def)
  have tie: "run_background W env (lookupIpInsight W env c a st)
                 = (snd (revalidateIpInsight W env a ?L))\<lparr>resolved := ?R\<rparr>"
    if "isStale" and "background st = []"
  proof -
    have sent: "snd (fetchIpInfoWorker W env a ?L)
                  = ?L\<lparr>netlog := netlog st @ primary_requests W env a\<rparr>"
      by (simp add: fetchIpInfoWorker_state log_def)
    have queued: "background (lookupIpInsight W env c a st) = [?t]"
      using that by (simp add: stale)
    have popped: "(lookupIpInsight W env c a st)\<lparr>background := []\<rparr>
                    = (snd (fetchIpInfoWorker W env a ?L))\<lparr>resolved := ?R, background := []\<rparr>"
      using that by (simp add: stale sent)
    have "run_background W env (lookupIpInsight W env c a st)
            = snd (revalidate_resume W env ?t
                     ((snd (fetchIpInfoWorker W env a ?L))\<lparr>resolved := ?R, background := []\<rparr>))"
      by (simp add: run_background_Cons[OF queued] popped)
    also have "\<dots> = (snd (revalidate_resume W env ?t (snd (fetchIpInfoWorker W env a ?L))))
                       \<lparr>resolved := ?R, background := []\<rparr>"
      by (simp add: revalidate_resume_detached case_prod_beta)
    also have "\<dots> = (snd (revalidateIpInsight W env a ?L))\<lparr>resolved := ?R, background := []\<rparr>"
      by (simp add: revalidate_split)
    also have "\<dots> = (snd (revalidateIpInsight W env a ?L))\<lparr>resolved := ?R\<rparr>"
    proof -
      have "background (snd (revalidateIpInsight W env a ?L)) = []"
        using that(2)
          attempt_providers_frame[of W env "''ipinfo revalidation failed''"
            "''Cloudflare Radar revalidation failed''" a ?L]
        by (auto simp add: revalidateIpInsight_def revalidate_try_def log_def cache_set_def
            split: prod.splits option.splits)
      then show ?thesis by simp
    qed
    finally show ?thesis .
  qed
  show ?thesis
    using assms await_hit[OF assms, of W env c] fresh stale tie same
    by (cases isStale) (simp_all add: log_def)
qed

theorem lookup_serves_cached_entry_witness:
  "resolved (lookupIpInsight (world_of server_error radar_ok) env_both 7 ''8.8.8.8'' (warm 400000)) 7
     = Some (Inr google)
   \<and> fst (await_lookupIpInsight (world_of server_error radar_ok) env_both 7 ''8.8.8.8'' (warm 400000))
       = Some (Inr google)
   \<and> netlog (lookupIpInsight (world_of server_error radar_ok) env_both 7 ''8.8.8.8'' (warm 400000))
       = [ipinfo_request (world_of server_error radar_ok) env_both ''8.8.8.8'']
   \<and> background (lookupIpInsight (world_of server_error radar_ok) env_both 7 ''8.8.8.8'' (warm 400000))
       = [\<lparr>rv_ip = ''8.8.8.8'', rv_ipinfo = Inl (Error ''ipinfo request failed: 500'')\<rparr>]
   \<and> cache (run_background (world_of server_error radar_ok) env_both
         (lookupIpInsight (world_of server_error radar_ok) env_both 7 ''8.8.8.8'' (warm 400000)))
       = [''8.8.8.8'' \<mapsto> \<lparr>data = google, storedAt = 400000\<rparr>]
   \<and> netlog (run_background (world_of server_error radar_ok) env_both
         (lookupIpInsight (world_of server_error radar_ok) env_both 7 ''8.8.8.8'' (warm 400000)))
       = [ipinfo_request (world_of server_error radar_ok) env_both ''8.8.8.8'',
          radar_request (world_of server_error radar_ok) env_both ''8.8.8.8'']
   \<and> resolved (run_background (world_of server_error radar_ok) env_both
         (lookupIpInsight (world_of server_error radar_ok) env_both 7 ''8.8.8.8'' (warm 400000))) 7
       = Some (Inr google)
   \<and> lookupIpInsight (world_of server_error radar_ok) env_both 7 ''8.8.8.8'' (warm 1000)
       = (warm 1000)\<lparr>resolved := (resolved (warm 1000))(7 \<mapsto> Inr google)\<rparr>
   \<and> netlog (lookupIpInsight (world_of server_error radar_ok) env_both 7 ''8.8.8.8'' (warm 1000)) = []
   \<and> background (lookupIpInsight (world_of server_error radar_ok) env_both 7 ''8.8.8.8'' (warm 1000)) = []"
proof -
  let ?W = "world_of server_error radar_ok"
  let ?L = "log Debug ''Serving stale data, revalidating in background'' (warm 400000)"
  have stale: "getWithStale (warm 400000) ''8.8.8.8'' = (Some \<lparr>data = google, storedAt = 0\<rparr>, True)"
    by (simp add: getWithStale_def warm_def cold_def)
  have fresh: "getWithStale (warm 1000) ''8.8.8.8'' = (Some \<lparr>data = google, storedAt = 0\<rparr>, False)"
    by (simp add: getWithStale_def warm_def cold_def)
  have facts: "netlog (warm 400000) = []" "background (warm 400000) = []"
    "netlog (warm 1000) = []" "background (warm 1000) = []"
    "primary_requests ?W env_both ''8.8.8.8'' = [ipinfo_request ?W env_both ''8.8.8.8'']"
    by (simp_all add: warm_def cold_def primary_requests_def present_def env_both_def)
  have first: "fst (fetchIpInfoWorker ?W env_both ''8.8.8.8'' (warm 400000))
                 = Inl (Error ''ipinfo request failed: 500'')"
    by (simp add: fetchIpInfoWorker_def fetchWithTimeout_eq ok_def show_nat_500 fixtures requests)
  have reval: "cache (snd (revalidateIpInsight ?W env_both ''8.8.8.8'' ?L))
                 = [''8.8.8.8'' \<mapsto> \<lparr>data = google, storedAt = 400000\<rparr>]
      \<and> netlog (snd (revalidateIpInsight ?W env_both ''8.8.8.8'' ?L))
          = [ipinfo_request ?W env_both ''8.8.8.8'', radar_request ?W env_both ''8.8.8.8'']"
    by (simp add: revalidateIpInsight_def revalidate_try_def attempt_providers_def cache_set_def
        evals fixtures requests)
  note S = lookup_serves_cached_entry[OF stale, of ?W env_both 7]
  note F = lookup_serves_cached_entry[OF fresh, of ?W env_both 7]
  from S have run: "run_background ?W env_both (lookupIpInsight ?W env_both 7 ''8.8.8.8'' (warm 400000))
      = (snd (revalidateIpInsight ?W env_both ''8.8.8.8'' ?L))
          \<lparr>resolved := (resolved (warm 400000))(7 \<mapsto> Inr google)\<rparr>"
    by (simp add: facts)
  from S F show ?thesis
    unfolding run using reval by (simp add: facts first)
qed

text \<open>
  Claim C7. Inside the factory the cache is read again before any provider is tried:
  when that read returns an entry, fresh or stale, the factory returns the entry's data
  and leaves the state as it was, so no request is sent and no revalidation is
  scheduled. Settling a ticket in that situation gives every waiter the entry's data.
  The outer read of \<open>lookupIpInsight\<close>, by contrast, starts a revalidation for a stale
  entry.
\<close>

theorem factory_recheck_returns_entry:
  assumes "getWithStale st a = (Some e, isStale)"
  shows "lookupFactory W env a st = (Inr (data e), st)
     \<and> (pending st (''ip:'' @ a) = Some (a, waiters) \<longrightarrow>
          (\<forall>c \<in> set waiters. resolved (settle W env (''ip:'' @ a) st) c = Some (Inr (data e)))
          \<and> netlog (settle W env (''ip:'' @ a) st) = netlog st
          \<and> background (settle W env (''ip:'' @ a) st) = background st
          \<and> cache (settle W env (''ip:'' @ a) st) = cache st
          \<and> cache_sets (settle W env (''ip:'' @ a) st) = cache_sets st)
     \<and> (isStale \<longrightarrow>
          map rv_ip (background (lookupIpInsight W env c a st)) = map rv_ip (background st) @ [a])"
  using assms
  by (simp add: lookupFactory_def settle_def lookupIpInsight_def revalidate_start_eq Let_def
      log_def)

theorem factory_recheck_returns_entry_witness:
  "lookupFactory (world_of ipinfo_ok radar_ok) env_both ''8.8.8.8''
       ((warm 400000)\<lparr>pending := [''ip:8.8.8.8'' \<mapsto> (''8.8.8.8'', [7, 8])]\<rparr>)
     = (Inr google, (warm 400000)\<lparr>pending := [''ip:8.8.8.8'' \<mapsto> (''8.8.8.8'', [7, 8])]\<rparr>)
   \<and> resolved (settle (world_of ipinfo_ok radar_ok) env_both ''ip:8.8.8.8''
         ((warm 400000)\<lparr>pending := [''ip:8.8.8.8'' \<mapsto> (''8.8.8.8'', [7, 8])]\<rparr>)) 8
       = Some (Inr google)
   \<and> netlog (settle (world_of ipinfo_ok radar_ok) env_both ''ip:8.8.8.8''
         ((warm 400000)\<lparr>pending := [''ip:8.8.8.8'' \<mapsto> (''8.8.8.8'', [7, 8])]\<rparr>)) = []
   \<and> background (settle (world_of ipinfo_ok radar_ok) env_both ''ip:8.8.8.8''
         ((warm 400000)\<lparr>pending := [''ip:8.8.8.8'' \<mapsto> (''8.8.8.8'', [7, 8])]\<rparr>)) = []
   \<and> map rv_ip (background (lookupIpInsight (world_of ipinfo_ok radar_ok) env_both 9 ''8.8.8.8''
         ((warm 400000)\<lparr>pending := [''ip:8.8.8.8'' \<mapsto> (''8.8.8.8'', [7, 8])]\<rparr>))) = [''8.8.8.8'']"
proof -
  let ?st = "(warm 400000)\<lparr>pending := [''ip:8.8.8.8'' \<mapsto> (''8.8.8.8'', [7, 8])]\<rparr>"
  have stale: "getWithStale ?st ''8.8.8.8'' = (Some \<lparr>data = google, storedAt = 0\<rparr>, True)"
    by (simp add: getWithStale_def warm_def cold_def)
  have ticket: "pending ?st (''ip:'' @ ''8.8.8.8'') = Some (''8.8.8.8'', [7, 8])"
    by simp
  have facts: "netlog ?st = []" "background ?st = []"
    by (simp_all add: warm_def cold_def)
  from factory_recheck_returns_entry[OF stale, of "world_of ipinfo_ok radar_ok" env_both "[7, 8]" 9] ticket
  show ?thesis
    by (simp add: facts)
qed

section \<open>Background revalidation\<close>

lemma revalidateIpInsight_eq:
  "revalidateIpInsight W env a st =
     (case attempt_providers W env ''ipinfo revalidation failed''
             ''Cloudflare Radar revalidation failed'' a st of
        (None, s) \<Rightarrow> (Inr (), s)
      | (Some i, s) \<Rightarrow> (Inr (), log Debug ''Background revalidation completed'' (cache_set a i s)))"
  by (simp add: revalidateIpInsight_def revalidate_try_def split: prod.splits option.splits)

text \<open>
  Claim C5. \<open>revalidateIpInsight\<close> never throws, and neither it nor a started
  revalidation that resumes settles or rejects any caller's promise or touches a ticket. When the two
  attempts produce no insight the cache and the record of its \<^verbatim>\<open>set\<close> calls are
  unchanged; a \<^verbatim>\<open>set\<close> is performed exactly when they produce an insight, which then
  replaces the address's entry. A provider attempt that throws is logged as a warning.
\<close>

theorem revalidation_failure_swallowed:
  "fst (revalidateIpInsight W env a st) = Inr ()
   \<and> resolved (snd (revalidateIpInsight W env a st)) = resolved st
   \<and> pending (snd (revalidateIpInsight W env a st)) = pending st
   \<and> resolved (run_background W env st) = resolved st
   \<and> pending (run_background W env st) = pending st
   \<and> (fst (attempt_providers W env ''ipinfo revalidation failed''
             ''Cloudflare Radar revalidation failed'' a st) = None \<longrightarrow>
        cache (snd (revalidateIpInsight W env a st)) = cache st
        \<and> cache_sets (snd (revalidateIpInsight W env a st)) = cache_sets st)
   \<and> (fst (attempt_providers W env ''ipinfo revalidation failed''
             ''Cloudflare Radar revalidation failed'' a st) = Some i \<longrightarrow>
        cache (snd (revalidateIpInsight W env a st))
          = (cache st)(a \<mapsto> \<lparr>data = i, storedAt = now st\<rparr>)
        \<and> cache_sets (snd (revalidateIpInsight W env a st)) = cache_sets st @ [(a, i)])
   \<and> (isl (fst (ipinfo_try W env a st)) \<longrightarrow>
        (Warn, ''ipinfo revalidation failed'') \<in> set (logs (snd (revalidateIpInsight W env a st))))
   \<and> (fst (ipinfo_attempt W env ''ipinfo revalidation failed'' a st) = None
       \<and> isl (fst (radar_try W env a (snd (ipinfo_attempt W env ''ipinfo revalidation failed'' a st))))
       \<longrightarrow> (Warn, ''Cloudflare Radar revalidation failed'')
             \<in> set (logs (snd (revalidateIpInsight W env a st))))"
proof -
  let ?m1 = "''ipinfo revalidation failed''" and ?m2 = "''Cloudflare Radar revalidation failed''"
  let ?ap = "attempt_providers W env ?m1 ?m2 a st"
  note fr = attempt_providers_frame[of W env ?m1 ?m2 a st]
  have st': "snd (revalidateIpInsight W env a st) =
      (case fst ?ap of None \<Rightarrow> snd ?ap
       | Some i \<Rightarrow> log Debug ''Background revalidation completed'' (cache_set a i (snd ?ap)))"
    by (simp add: revalidateIpInsight_eq split: prod.splits option.splits)
  have logs_ap: "logs (snd ?ap) = logs st
      @ (if isl (fst (ipinfo_try W env a st)) then [(Warn, ?m1)] else [])
      @ (if fst (ipinfo_attempt W env ?m1 a st) = None
            \<and> isl (fst (radar_try W env a (snd (ipinfo_attempt W env ?m1 a st))))
         then [(Warn, ?m2)] else [])"
    by (simp add: attempt_providers_state Let_def ipinfo_attempt_state radar_attempt_state)
  have logs': "set (logs (snd ?ap)) \<subseteq> set (logs (snd (revalidateIpInsight W env a st)))"
    by (auto simp add: st' log_def cache_set_def split: option.splits)
  have r1: "fst (revalidateIpInsight W env a st) = Inr ()"
    by (simp add: revalidateIpInsight_eq split: prod.splits option.splits)
  have r2: "resolved (snd (revalidateIpInsight W env a st)) = resolved st
      \<and> pending (snd (revalidateIpInsight W env a st)) = pending st"
    using fr by (simp add: st' log_def cache_set_def split: option.splits)
  have bg: "resolved (run_background W env st) = resolved st
      \<and> pending (run_background W env st) = pending st"
  proof (cases "background st")
    case Nil
    then show ?thesis by (simp add: run_background_def)
  next
    case (Cons x rest)
    have "resolved (snd (revalidate_resume W env x (st\<lparr>background := rest\<rparr>))) = resolved st
      \<and> pending (snd (revalidate_resume W env x (st\<lparr>background := rest\<rparr>))) = pending st"
      using revalidate_resume_frame[of W env x "st\<lparr>background := rest\<rparr>"] by simp
    then show ?thesis
      using Cons by (auto simp add: run_background_def log_def split: prod.splits sum.splits)
  qed
  have c0: "fst ?ap = None \<longrightarrow>
        cache (snd (revalidateIpInsight W env a st)) = cache st
        \<and> cache_sets (snd (revalidateIpInsight W env a st)) = cache_sets st"
    using fr by (simp add: st')
  have c1: "fst ?ap = Some i \<longrightarrow>
        cache (snd (revalidateIpInsight W env a st))
          = (cache st)(a \<mapsto> \<lparr>data = i, storedAt = now st\<rparr>)
        \<and> cache_sets (snd (revalidateIpInsight W env a st)) = cache_sets st @ [(a, i)]"
    using fr by (simp add: st' log_def cache_set_def)
  have l1: "isl (fst (ipinfo_try W env a st)) \<longrightarrow>
        (Warn, ?m1) \<in> set (logs (snd (revalidateIpInsight W env a st)))"
    using logs' by (auto simp add: logs_ap)
  have l2: "fst (ipinfo_attempt W env ?m1 a st) = None
       \<and> isl (fst (radar_try W env a (snd (ipinfo_attempt W env ?m1 a st))))
       \<longrightarrow> (Warn, ?m2) \<in> set (logs (snd (revalidateIpInsight W env a st)))"
    using logs' by (auto simp add: logs_ap)
  show ?thesis
    using r1 r2 bg c0 c1 l1 l2 by blast
qed

theorem revalidation_failure_swallowed_witness:
  "fst (revalidateIpInsight (world_of server_error timed_out) env_both ''8.8.8.8'' (warm 400000))
     = Inr ()
   \<and> cache (snd (revalidateIpInsight (world_of server_error timed_out) env_both ''8.8.8.8''
               (warm 400000))) = cache (warm 400000)
   \<and> cache_sets (snd (revalidateIpInsight (world_of server_error timed_out) env_both ''8.8.8.8''
               (warm 400000))) = []
   \<and> (Warn, ''ipinfo revalidation failed'')
        \<in> set (logs (snd (revalidateIpInsight (world_of server_error timed_out) env_both
                          ''8.8.8.8'' (warm 400000))))
   \<and> (Warn, ''Cloudflare Radar revalidation failed'')
        \<in> set (logs (snd (revalidateIpInsight (world_of server_error timed_out) env_both
                          ''8.8.8.8'' (warm 400000))))
   \<and> cache (snd (revalidateIpInsight (world_of server_error radar_ok) env_both ''8.8.8.8''
               (warm 400000))) = [''8.8.8.8'' \<mapsto> \<lparr>data = google, storedAt = 400000\<rparr>]
   \<and> cache_sets (snd (revalidateIpInsight (world_of server_error radar_ok) env_both ''8.8.8.8''
               (warm 400000))) = [(''8.8.8.8'', google)]"
proof -
  let ?F = "world_of server_error timed_out" and ?S = "world_of server_error radar_ok"
  let ?m1 = "''ipinfo revalidation failed''" and ?m2 = "''Cloudflare Radar revalidation failed''"
  have none: "fst (attempt_providers ?F env_both ?m1 ?m2 ''8.8.8.8'' (warm 400000)) = None"
    by (simp add: attempt_providers_def evals fixtures requests)
  have some: "fst (attempt_providers ?S env_both ?m1 ?m2 ''8.8.8.8'' (warm 400000)) = Some google"
    by (simp add: attempt_providers_def evals fixtures requests)
  have p: "isl (fst (ipinfo_try ?F env_both ''8.8.8.8'' (warm 400000)))"
    by (simp add: evals fixtures requests)
  have q: "fst (ipinfo_attempt ?F env_both ?m1 ''8.8.8.8'' (warm 400000)) = None
      \<and> isl (fst (radar_try ?F env_both ''8.8.8.8''
                (snd (ipinfo_attempt ?F env_both ?m1 ''8.8.8.8'' (warm 400000)))))"
    by (simp add: evals fixtures requests)
  have facts: "cache_sets (warm 400000) = []" "now (warm 400000) = 400000"
    "cache (warm 400000) = [''8.8.8.8'' \<mapsto> \<lparr>data = google, storedAt = 0\<rparr>]"
    by (simp_all add: warm_def cold_def)
  from revalidation_failure_swallowed[of ?F env_both "''8.8.8.8''" "warm 400000" google]
    revalidation_failure_swallowed[of ?S env_both "''8.8.8.8''" "warm 400000" google] none some p q
  show ?thesis
    by (simp add: facts)
qed

section \<open>Concurrent callers\<close>

lemma lookups_register:
  assumes miss: "getWithStale st a = (None, b)" and idle: "pending st (''ip:'' @ a) = None"
  shows "cs \<noteq> [] \<Longrightarrow>
     run W env (map (\<lambda>c. Lookup c a) cs) st =
       st\<lparr>resolved := (\<lambda>x. if x \<in> set cs then None else resolved st x),
          pending := (pending st)(''ip:'' @ a \<mapsto> (a, cs)),
          invocations := invocations st @ [''ip:'' @ a]\<rparr>"
proof (induction cs rule: rev_nonempty_induct)
  case (single c)
  show ?case
    using miss idle
    by (auto simp add: run_def lookupIpInsight_def deduplicate_def fun_eq_iff)
next
  case (snoc c cs)
  have "run W env (map (\<lambda>c. Lookup c a) (cs @ [c])) st
          = lookupIpInsight W env c a (run W env (map (\<lambda>c. Lookup c a) cs) st)"
    by (simp add: run_def)
  also have "\<dots> = st\<lparr>resolved := (\<lambda>x. if x \<in> set (cs @ [c]) then None else resolved st x),
          pending := (pending st)(''ip:'' @ a \<mapsto> (a, cs @ [c])),
          invocations := invocations st @ [''ip:'' @ a]\<rparr>"
    using miss
    by (auto simp add: snoc.IH lookupIpInsight_def getWithStale_tickets deduplicate_def fun_eq_iff)
  finally show ?case .
qed

text \<open>
  Claim C4, as amended. For an address that misses the cache and has no resolution in
  flight, any number of callers that look it up before the shared resolution settles
  cause exactly one factory invocation under the key \<open>''ip:'' @ a\<close>; every caller
  receives that invocation's outcome, success or failure; the key is no longer pending
  afterwards; and the requests sent are those of one factory run: the primary's (if it
  has a token), then the secondary's (if it has credentials) only when the primary gave
  no insight, hence at most two and not always one.
\<close>

theorem dedup_one_resolution:
  assumes miss: "getWithStale st a = (None, b)"
    and idle: "pending st (''ip:'' @ a) = None"
    and some: "cs \<noteq> []"
  shows "invocations (concurrent_lookups W env cs a st) = invocations st @ [''ip:'' @ a]
     \<and> (\<forall>c \<in> set cs. resolved (concurrent_lookups W env cs a st) c
             = Some (fst (lookupFactory W env a st)))
     \<and> pending (concurrent_lookups W env cs a st) (''ip:'' @ a) = None
     \<and> netlog (concurrent_lookups W env cs a st)
         = netlog st @ primary_requests W env a
             @ (if fst (ipinfo_attempt W env ''ipinfo lookup failed'' a st) = None
                then secondary_requests W env a else [])
     \<and> length (netlog (concurrent_lookups W env cs a st)) \<le> length (netlog st) + 2"
proof -
  let ?reg = "st\<lparr>resolved := (\<lambda>x. if x \<in> set cs then None else resolved st x),
          pending := (pending st)(''ip:'' @ a \<mapsto> (a, cs)),
          invocations := invocations st @ [''ip:'' @ a]\<rparr>"
  let ?F = "lookupFactory W env a st"
  have "concurrent_lookups W env cs a st = settle W env (''ip:'' @ a) ?reg"
    using lookups_register[OF miss idle some, of W env]
    by (simp add: concurrent_lookups_def run_def)
  also have "\<dots> = (snd ?F)\<lparr>resolved := (\<lambda>x. if x \<in> set cs then Some (fst ?F) else resolved st x),
          pending := (pending st)(''ip:'' @ a := None),
          invocations := invocations st @ [''ip:'' @ a]\<rparr>"
    by (auto simp add: settle_def lookupFactory_tickets fun_eq_iff split: prod.splits)
  finally have final: "concurrent_lookups W env cs a st =
       (snd ?F)\<lparr>resolved := (\<lambda>x. if x \<in> set cs then Some (fst ?F) else resolved st x),
          pending := (pending st)(''ip:'' @ a := None),
          invocations := invocations st @ [''ip:'' @ a]\<rparr>" .
  have n: "netlog (snd ?F) = netlog st @ primary_requests W env a
             @ (if fst (ipinfo_attempt W env ''ipinfo lookup failed'' a st) = None
                then secondary_requests W env a else [])"
    by (rule lookupFactory_netlog[OF miss])
  have len: "length (netlog (snd ?F)) \<le> length (netlog st) + 2"
    unfolding n by (simp add: primary_requests_def secondary_requests_def)
  show ?thesis
    unfolding final using n len by simp
qed

theorem dedup_one_resolution_witness:
  "invocations (concurrent_lookups (world_of server_error radar_ok) env_both [7, 8, 9]
                  ''8.8.8.8'' (cold 0)) = [''ip:8.8.8.8'']
   \<and> resolved (concurrent_lookups (world_of server_error radar_ok) env_both [7, 8, 9]
                  ''8.8.8.8'' (cold 0)) 7 = Some (Inr google)
   \<and> resolved (concurrent_lookups (world_of server_error radar_ok) env_both [7, 8, 9]
                  ''8.8.8.8'' (cold 0)) 8 = Some (Inr google)
   \<and> resolved (concurrent_lookups (world_of server_error radar_ok) env_both [7, 8, 9]
                  ''8.8.8.8'' (cold 0)) 9 = Some (Inr google)
   \<and> pending (concurrent_lookups (world_of server_error radar_ok) env_both [7, 8, 9]
                  ''8.8.8.8'' (cold 0)) ''ip:8.8.8.8'' = None
   \<and> netlog (concurrent_lookups (world_of server_error radar_ok) env_both [7, 8, 9]
                  ''8.8.8.8'' (cold 0))
       = [ipinfo_request (world_of server_error radar_ok) env_both ''8.8.8.8'',
          radar_request (world_of server_error radar_ok) env_both ''8.8.8.8'']"
proof -
  let ?W = "world_of server_error radar_ok"
  have miss: "getWithStale (cold 0) ''8.8.8.8'' = (None, False)"
    by (simp add: getWithStale_def cold_def)
  have idle: "pending (cold 0) (''ip:'' @ ''8.8.8.8'') = None"
    by (simp add: cold_def)
  have some: "[7, 8, 9] \<noteq> ([] :: nat list)"
    by simp
  have p: "fst (ipinfo_attempt ?W env_both ''ipinfo lookup failed'' ''8.8.8.8'' (cold 0)) = None"
    by (simp add: evals fixtures requests)
  have f: "fst (lookupFactory ?W env_both ''8.8.8.8'' (cold 0)) = Inr google"
    by (simp add: lookupFactory_def attempt_providers_def cache_set_def evals fixtures requests)
  have facts: "invocations (cold 0) = []" "netlog (cold 0) = []"
    "primary_requests ?W env_both ''8.8.8.8'' = [ipinfo_request ?W env_both ''8.8.8.8'']"
    "secondary_requests ?W env_both ''8.8.8.8'' = [radar_request ?W env_both ''8.8.8.8'']"
    by (simp_all add: cold_def primary_requests_def secondary_requests_def present_def env_both_def)
  from dedup_one_resolution[OF miss idle some, of ?W env_both] p f
  show ?thesis
    by (simp add: facts)
qed

theorem dedup_two_provider_requests:
  "length (netlog (concurrent_lookups (world_of server_error radar_ok) env_both [1, 2]
                     ''8.8.8.8'' (cold 0))) = 2"
  by (simp add: concurrent_lookups_def run_def lookupIpInsight_def getWithStale_def
      deduplicate_def settle_def lookupFactory_def attempt_providers_def
      ipinfo_attempt_def ipinfo_try_def radar_attempt_def radar_try_def
      fetchIpInfoWorker_def fetchRadarWorker_def fetchWithTimeout_eq ok_def
      response_json_def log_def cache_set_def fixtures requests)

text \<open>
  The spec's scenario: with only the secondary provider configured, a first lookup of
  8.8.8.8 returns the normalised Radar response, and a second lookup within the freshness
  window returns the same insight without another request.
\<close>

lemma scenario_secondary_only:
  "resolved (run (world_of timed_out radar_ok) env_radar_only
       [Lookup 1 ''8.8.8.8'', Settle ''ip:8.8.8.8'', Lookup 2 ''8.8.8.8''] (cold 0)) 1
     = Some (Inr google)
   \<and> resolved (run (world_of timed_out radar_ok) env_radar_only
       [Lookup 1 ''8.8.8.8'', Settle ''ip:8.8.8.8'', Lookup 2 ''8.8.8.8''] (cold 0)) 2
       = Some (Inr google)
   \<and> netlog (run (world_of timed_out radar_ok) env_radar_only
       [Lookup 1 ''8.8.8.8'', Settle ''ip:8.8.8.8'', Lookup 2 ''8.8.8.8''] (cold 0))
       = [radar_request (world_of timed_out radar_ok) env_radar_only ''8.8.8.8'']"
  by (simp add: run_def lookupIpInsight_def deduplicate_def settle_def lookupFactory_def
      attempt_providers_def cache_set_def evals fixtures requests)


section \<open>Routes\<close>

lemma get_v1_ip_invalid:
  "param = None \<or> param = Some [] \<or> (\<exists>a. param = Some a \<and> \<not> ip_pattern a) \<Longrightarrow>
   get_v1_ip W env c param st = (Some invalid_ip_response, st)"
  by (auto simp add: get_v1_ip_def)

lemma get_v1_ip_statuses:
  "fst (get_v1_ip W env c param st) = Some r \<Longrightarrow> res_status r \<in> {200, 400, 500}"
  by (auto simp add: get_v1_ip_def invalid_ip_response_def internal_error_response_def
      json_response_def split: option.splits if_splits prod.splits sum.splits)

lemma get_v1_ip_failure:
  assumes "a \<noteq> []" and "ip_pattern a"
    and "fst (await_lookupIpInsight W env c a st) = Some (Inl e)"
  shows "fst (get_v1_ip W env c (Some a) st) = Some (internal_error_response e)
     \<and> res_status (internal_error_response e) = 500"
  using assms
  by (auto simp add: get_v1_ip_def internal_error_response_def json_response_def
      split: prod.splits option.splits sum.splits)

lemma get_v1_ip_success:
  assumes "a \<noteq> []" and "ip_pattern a"
    and "fst (await_lookupIpInsight W env c a st) = Some (Inr i)"
  shows "fst (get_v1_ip W env c (Some a) st) = Some (json_response (insight_json i) 200)"
  using assms
  by (auto simp add: get_v1_ip_def split: prod.splits option.splits sum.splits)

lemma errorHandler_ApiError:
  "res_status (fst (errorHandler (ApiError code m))) = code"
  by (simp add: errorHandler_def json_response_def Let_def)

lemma ip_pattern_example: "ip_pattern ''8.8.8.8''"
  by (simp add: ip_pattern_def match_group_def match_digits_def match_dot_def is_digit_def)

text \<open>The pattern checks the shape only: octets above 255 pass it, an IPv6 address does not.\<close>

lemma ip_pattern_out_of_range: "ip_pattern ''999.999.999.999''"
  by (simp add: ip_pattern_def match_group_def match_digits_def match_dot_def is_digit_def)

lemma ip_pattern_rejects_ipv6: "\<not> ip_pattern ''::1''"
  by (simp add: ip_pattern_def match_group_def match_digits_def match_dot_def is_digit_def)

text \<open>
  Claim C9 at a failing input. With both providers configured, ipinfo answering 500 and
  the Radar request timing out, \<^verbatim>\<open>GET /api/v1/ip/8.8.8.8\<close> on a cold isolate answers with
  the handler's catch-all response, whose status is 500, although the error it caught is
  the service's \<open>ApiError 502\<close>, which the Express \<open>errorHandler\<close> maps to status 502.
\<close>

theorem ip_route_total_failure_is_500:
  "fst (get_v1_ip (world_of server_error timed_out) env_both 7 (Some ''8.8.8.8'') (cold 0))
     = Some (internal_error_response (ApiError 502 ''Unable to fetch IP intelligence''))
   \<and> res_status (internal_error_response (ApiError 502 ''Unable to fetch IP intelligence'')) = 500
   \<and> res_status (fst (errorHandler (ApiError 502 ''Unable to fetch IP intelligence''))) = 502"
proof -
  let ?W = "world_of server_error timed_out"
  have miss: "getWithStale (cold 0) ''8.8.8.8'' = (None, False)"
    by (simp add: getWithStale_def cold_def)
  have idle: "pending (cold 0) (''ip:'' @ ''8.8.8.8'') = None"
    by (simp add: cold_def)
  have f: "fst (lookupFactory ?W env_both ''8.8.8.8'' (cold 0))
             = Inl (ApiError 502 ''Unable to fetch IP intelligence'')"
    by (simp add: lookupFactory_def attempt_providers_def cache_set_def evals fixtures requests)
  have "fst (await_lookupIpInsight ?W env_both 7 ''8.8.8.8'' (cold 0))
          = Some (Inl (ApiError 502 ''Unable to fetch IP intelligence''))"
    using f by (simp add: await_miss[OF miss idle] case_prod_beta)
  then have "fst (get_v1_ip ?W env_both 7 (Some ''8.8.8.8'') (cold 0))
     = Some (internal_error_response (ApiError 502 ''Unable to fetch IP intelligence''))"
    using ip_pattern_example
    by (auto simp add: get_v1_ip_def split: prod.splits option.splits sum.splits)
  then show ?thesis
    by (simp add: internal_error_response_def json_response_def errorHandler_ApiError)
qed

lemma verifyRadarToken_now: "now (snd (verifyRadarToken W env st)) = now st"
  by (auto simp add: verifyRadarToken_def verify_try_def fetchWithTimeout_eq log_def
      split: prod.splits sum.splits fetch_outcome.splits)

lemma get_api_health_body:
  assumes "fst (verifyRadarToken W env st) = Inr b"
  shows "res_body (fst (get_api_health W env st))
      = JObj [(''status'', JStr ''ok''), (''version'', JStr ''1.0.0''),
              (''environment'', JStr ''cloudflare-workers''), (''uptime'', JNum (now st)),
              (''cache'',
                 JObj [(''backend'', JStr (case CACHE_BACKEND env of None \<Rightarrow> ''kv'' | Some k \<Rightarrow> k)),
                       (''enabled'', JBool True)]),
              (''radarHealthy'', JBool b), (''timestamp'', JNum (now st))]"
proof (cases "verifyRadarToken W env st")
  case (Pair r s)
  with assms have r: "r = Inr b" by simp
  from Pair have "now s = now st"
    using verifyRadarToken_now[of W env st] by simp
  then show ?thesis
    by (simp add: get_api_health_def Pair r json_response_def)
qed

lemma healthRouter_health_fields:
  "has_field (res_body (healthRouter_health config h)) ''status''
   \<and> has_field (res_body (healthRouter_health config h)) ''ipinfoConfigured''
   \<and> has_field (res_body (healthRouter_health config h)) ''radarHealthy''
   \<and> has_field (js_field (res_body (healthRouter_health config h)) ''cache'') ''backend''
   \<and> has_field (js_field (res_body (healthRouter_health config h)) ''cache'') ''warmingInProgress''
   \<and> has_field (js_field (res_body (healthRouter_health config h)) ''cache'') ''warmedCount''"
  by (simp add: healthRouter_health_def json_response_def has_field_def js_field_def Let_def)

text \<open>
  Claim C10 at a failing input. The worker's \<^verbatim>\<open>GET /api/health\<close> answers with a body
  that has \<open>status\<close>, \<open>radarHealthy\<close> and \<open>cache.backend\<close>, but neither
  \<open>ipinfoConfigured\<close> nor \<open>cache.warmingInProgress\<close> nor \<open>cache.warmedCount\<close>; the
  Express route has all of them (\<open>healthRouter_health_fields\<close>).
\<close>

theorem health_route_missing_fields:
  "has_field (res_body (fst (get_api_health (world_of ipinfo_ok radar_ok) env_both (cold 0)))) ''status''
   \<and> has_field (res_body (fst (get_api_health (world_of ipinfo_ok radar_ok) env_both (cold 0))))
        ''radarHealthy''
   \<and> has_field (js_field (res_body (fst (get_api_health (world_of ipinfo_ok radar_ok) env_both (cold 0))))
        ''cache'') ''backend''
   \<and> \<not> has_field (res_body (fst (get_api_health (world_of ipinfo_ok radar_ok) env_both (cold 0))))
        ''ipinfoConfigured''
   \<and> \<not> has_field (js_field (res_body (fst (get_api_health (world_of ipinfo_ok radar_ok) env_both (cold 0))))
        ''cache'') ''warmingInProgress''
   \<and> \<not> has_field (js_field (res_body (fst (get_api_health (world_of ipinfo_ok radar_ok) env_both (cold 0))))
        ''cache'') ''warmedCount''"
proof -
  have v: "fst (verifyRadarToken (world_of ipinfo_ok radar_ok) env_both (cold 0)) = Inr True"
    by (simp add: verifyRadarToken_result verify_try_result response_json_def ok_def
        fixtures requests)
  have "res_body (fst (get_api_health (world_of ipinfo_ok radar_ok) env_both (cold 0)))
      = JObj [(''status'', JStr ''ok''), (''version'', JStr ''1.0.0''),
              (''environment'', JStr ''cloudflare-workers''), (''uptime'', JNum 0),
              (''cache'', JObj [(''backend'', JStr ''kv''), (''enabled'', JBool True)]),
              (''radarHealthy'', JBool True), (''timestamp'', JNum 0)]"
    unfolding get_api_health_body[OF v] by (simp add: env_both_def cold_def)
  then show ?thesis
    by (simp add: has_field_def js_field_def)
qed

end
